theory Spec2Isabelle
  imports Complex_Main "HOL-Library.AList" "HOL-Library.Char_ord" "HOL-Library.List_Lexorder"
begin

section \<open>Python values shared by the three scripts\<close>

text \<open>
  A naive \<open>datetime\<close> is the number of microseconds of its wall clock since
  1970-01-01 00:00:00 (Python's own resolution). An aware \<open>datetime\<close>, as
  \<open>strptime\<close> with \<open>%z\<close> returns it, carries the wall clock and the UTC offset;
  Python orders two aware values by their UTC instants, and
  \<open>replace(tzinfo=None)\<close> keeps the wall clock.
\<close>

type_synonym naive_datetime = int

record aware_datetime =
  wall :: int
  utcoffset :: int

definition utc :: "aware_datetime \<Rightarrow> int" where
  "utc d = wall d - utcoffset d"

definition dt_le :: "aware_datetime \<Rightarrow> aware_datetime \<Rightarrow> bool" where
  "dt_le a b = (utc a \<le> utc b)"

definition dt_ge :: "aware_datetime \<Rightarrow> aware_datetime \<Rightarrow> bool" where
  "dt_ge a b = (utc a \<ge> utc b)"

definition replace_tzinfo_None :: "aware_datetime \<Rightarrow> naive_datetime" where
  "replace_tzinfo_None d = wall d"

text \<open>\<open>datetime(2025, 5, 1)\<close>: 20209 days after 1970-01-01.\<close>

definition start_date :: naive_datetime where
  "start_date = 20209 * 86400 * 1000000"

text \<open>\<open>sub in s\<close> on strings: \<open>sub\<close> occurs in \<open>s\<close> as a contiguous run.\<close>

fun str_in :: "string \<Rightarrow> string \<Rightarrow> bool" where
  "str_in sub [] = (sub = [])"
| "str_in sub (c # cs) = (take (length sub) (c # cs) = sub \<or> str_in sub cs)"

text \<open>\<open>sum(...)\<close> adds from the left, starting at 0.\<close>

definition py_sum :: "('a::monoid_add) list \<Rightarrow> 'a" where
  "py_sum xs = foldl (+) 0 xs"

text \<open>Truth of an attribute value in an \<open>if\<close>: present and not the empty string.\<close>

fun truthy :: "string option \<Rightarrow> bool" where
  "truthy None = False"
| "truthy (Some s) = (s \<noteq> [])"

text \<open>The value itself when it is true, for the branch that uses it.\<close>

fun present :: "string option \<Rightarrow> string option" where
  "present None = None"
| "present (Some s) = (if s = [] then None else Some s)"

text \<open>\<open>s.split(sep)\<close> with a one-character separator: never an empty list.\<close>

fun split_acc :: "char \<Rightarrow> string \<Rightarrow> string \<Rightarrow> string list" where
  "split_acc sep cur [] = [rev cur]"
| "split_acc sep cur (c # cs) =
     (if c = sep then rev cur # split_acc sep [] cs else split_acc sep (c # cur) cs)"

definition split :: "char \<Rightarrow> string \<Rightarrow> string list" where
  "split sep s = split_acc sep [] s"

datatype py_error =
  ValueError | TypeError | IndexError | ZeroDivisionError | OverflowError | ParseError

text \<open>
  The functions of Python's library that the scripts call on text are parameters of
  the model: \<open>None\<close> is the \<open>ValueError\<close> each of them raises on a string it
  rejects. \<open>strptime_z\<close> is \<open>datetime.strptime\<close> with
  \<open>'%Y-%m-%d %H:%M:%S %z'\<close>, whose results are aware; \<open>strptime_ymd\<close> is
  \<open>datetime.strptime\<close> with \<open>'%Y-%m-%d'\<close>, whose results are naive;
  \<open>fromisoformat\<close> returns either kind. A \<open>float\<close> is idealised as a real
  number.
\<close>

record iso_datetime =
  iso_wall :: int
  iso_offset :: "int option"

record python =
  strptime_z :: "string \<Rightarrow> aware_datetime option"
  strptime_ymd :: "string \<Rightarrow> naive_datetime option"
  int_of_str :: "string \<Rightarrow> int option"
  float_of_str :: "string \<Rightarrow> real option"
  fromisoformat :: "string \<Rightarrow> iso_datetime option"
  strftime_ymd :: "naive_datetime \<Rightarrow> string"
  isoformat :: "naive_datetime \<Rightarrow> string"

text \<open>
  An element of \<open>xml.etree.ElementTree\<close>. The loops over \<open>ET.iterparse\<close> receive
  pairs of an event and an element; each pair of the model carries the element as it is
  when the loop receives it.
\<close>

datatype element =
  Element (el_tag: string) (el_attrib: "(string \<times> string) list")
    (el_text: "string option") (el_children: "element list")

datatype event = Start | End

definition get :: "element \<Rightarrow> string \<Rightarrow> string option" where
  "get elem key = map_of (el_attrib elem) key"

definition get_default :: "element \<Rightarrow> string \<Rightarrow> string \<Rightarrow> string" where
  "get_default elem key dflt = (case get elem key of None \<Rightarrow> dflt | Some v \<Rightarrow> v)"

text \<open>\<open>elem.findall('.//tag')\<close>: the descendants with that tag, in document order.\<close>

fun descendants :: "element \<Rightarrow> element list" where
  "descendants (Element t a x cs) = concat (map (\<lambda>c. c # descendants c) cs)"

definition findall :: "element \<Rightarrow> string \<Rightarrow> element list" where
  "findall elem t = filter (\<lambda>e. el_tag e = t) (descendants elem)"

text \<open>\<open>elem.find('tag')\<close>: the first child with that tag.\<close>

definition find_child :: "element \<Rightarrow> string \<Rightarrow> element option" where
  "find_child elem t = List.find (\<lambda>e. el_tag e = t) (el_children elem)"

section \<open>step_corrector.py: the correction algorithm\<close>

record workout_time =
  w_start :: aware_datetime
  w_end :: aware_datetime
  w_type :: string

record step_record =
  s_start :: aware_datetime
  s_end :: aware_datetime
  s_value :: int
  s_source :: string

text \<open>The test of one workout inside the loop of \<open>is_step_during_workout\<close>.\<close>

definition overlaps :: "step_record \<Rightarrow> workout_time \<Rightarrow> bool" where
  "overlaps step workout =
     (dt_le (s_start step) (w_end workout) \<and> dt_ge (s_end step) (w_start workout))"

fun is_step_during_workout :: "step_record \<Rightarrow> workout_time list \<Rightarrow> bool" where
  "is_step_during_workout step [] = False"
| "is_step_during_workout step (workout # rest) =
     (if overlaps step workout then True else is_step_during_workout step rest)"

text \<open>
  The three lists the loop over \<open>step_records\<close> fills, in the order of the
  \<open>if\<close>/\<open>elif\<close> chain; a record that matches no class is appended nowhere.
\<close>

record classified =
  steps_during_cycling :: "step_record list"
  steps_during_skating :: "step_record list"
  steps_during_walking :: "step_record list"

definition classify_step ::
  "workout_time list \<Rightarrow> workout_time list \<Rightarrow> workout_time list \<Rightarrow>
   classified \<Rightarrow> step_record \<Rightarrow> classified" where
  "classify_step cycling_workouts skating_workouts walking_workouts acc step =
     (if is_step_during_workout step cycling_workouts
      then acc\<lparr>steps_during_cycling := steps_during_cycling acc @ [step]\<rparr>
      else if is_step_during_workout step skating_workouts
      then acc\<lparr>steps_during_skating := steps_during_skating acc @ [step]\<rparr>
      else if is_step_during_workout step walking_workouts
      then acc\<lparr>steps_during_walking := steps_during_walking acc @ [step]\<rparr>
      else acc)"

definition cycling_of :: "workout_time list \<Rightarrow> workout_time list" where
  "cycling_of workout_times = filter (\<lambda>w. str_in ''Cycling'' (w_type w)) workout_times"

definition skating_of :: "workout_time list \<Rightarrow> workout_time list" where
  "skating_of workout_times = filter (\<lambda>w. str_in ''Skating'' (w_type w)) workout_times"

definition walking_of :: "workout_time list \<Rightarrow> workout_time list" where
  "walking_of workout_times = filter (\<lambda>w. str_in ''Walking'' (w_type w)) workout_times"

definition classify_steps :: "workout_time list \<Rightarrow> step_record list \<Rightarrow> classified" where
  "classify_steps workout_times step_records =
     foldl (classify_step (cycling_of workout_times) (skating_of workout_times)
              (walking_of workout_times))
       \<lparr>steps_during_cycling = [], steps_during_skating = [], steps_during_walking = []\<rparr>
       step_records"

record step_result =
  total_steps :: int
  cycling_steps :: int
  skating_steps :: int
  walking_steps :: int
  corrected_steps :: int
  res_step_records :: "step_record list"
  res_workout_times :: "workout_time list"

text \<open>
  The body of \<open>calculate_corrected_steps\<close> after its two extraction calls.
\<close>

definition correct_steps :: "workout_time list \<Rightarrow> step_record list \<Rightarrow> step_result" where
  "correct_steps workout_times step_records =
     (let total = py_sum (map s_value step_records);
          cls = classify_steps workout_times step_records;
          cycling = py_sum (map s_value (steps_during_cycling cls));
          skating = py_sum (map s_value (steps_during_skating cls));
          walking = py_sum (map s_value (steps_during_walking cls))
      in \<lparr>total_steps = total, cycling_steps = cycling, skating_steps = skating,
          walking_steps = walking, corrected_steps = total - cycling - skating,
          res_step_records = step_records, res_workout_times = workout_times\<rparr>)"

subsection \<open>Reading the export\<close>

definition extract_workout_event ::
  "python \<Rightarrow> workout_time list \<Rightarrow> event \<times> element \<Rightarrow> workout_time list" where
  "extract_workout_event py workout_times ev =
     (case ev of (event, elem) \<Rightarrow>
        if event = End \<and> el_tag elem = ''Workout'' then
          (let start_date_str = get elem ''startDate'';
               end_date_str = get elem ''endDate'';
               workout_type = get_default elem ''workoutActivityType'' []
           in case (start_date_str, end_date_str) of
                (Some s, Some e) \<Rightarrow>
                  if s \<noteq> [] \<and> e \<noteq> [] then
                    (case strptime_z py s of
                       None \<Rightarrow> workout_times
                     | Some workout_start \<Rightarrow>
                         (case strptime_z py e of
                            None \<Rightarrow> workout_times
                          | Some workout_end \<Rightarrow>
                              if replace_tzinfo_None workout_start \<ge> start_date
                              then workout_times @
                                [\<lparr>w_start = workout_start, w_end = workout_end,
                                  w_type = workout_type\<rparr>]
                              else workout_times))
                  else workout_times
              | _ \<Rightarrow> workout_times)
        else workout_times)"

definition extract_workout_times ::
  "python \<Rightarrow> (event \<times> element) list \<Rightarrow> workout_time list" where
  "extract_workout_times py context = foldl (extract_workout_event py) [] context"

definition extract_step_event ::
  "python \<Rightarrow> step_record list \<Rightarrow> event \<times> element \<Rightarrow> step_record list" where
  "extract_step_event py step_records ev =
     (case ev of (event, elem) \<Rightarrow>
        if event = End \<and> el_tag elem = ''Record'' then
          (if get elem ''type'' = Some ''HKQuantityTypeIdentifierStepCount'' then
             (case (get elem ''startDate'', get elem ''endDate'', get elem ''value'') of
                (Some s, Some e, Some v) \<Rightarrow>
                  if s \<noteq> [] \<and> e \<noteq> [] \<and> v \<noteq> [] then
                    (case strptime_z py s of
                       None \<Rightarrow> step_records
                     | Some step_start \<Rightarrow>
                         (case strptime_z py e of
                            None \<Rightarrow> step_records
                          | Some step_end \<Rightarrow>
                              if replace_tzinfo_None step_start \<ge> start_date then
                                (case int_of_str py v of
                                   None \<Rightarrow> step_records
                                 | Some n \<Rightarrow> step_records @
                                     [\<lparr>s_start = step_start, s_end = step_end, s_value = n,
                                       s_source = get_default elem ''sourceName'' ''Unknown''\<rparr>])
                              else step_records))
                  else step_records
              | _ \<Rightarrow> step_records)
           else step_records)
        else step_records)"

definition extract_steps_with_times ::
  "python \<Rightarrow> (event \<times> element) list \<Rightarrow> step_record list" where
  "extract_steps_with_times py context = foldl (extract_step_event py) [] context"

text \<open>Both passes read the same file \<open>export.xml\<close>.\<close>

definition calculate_corrected_steps ::
  "python \<Rightarrow> (event \<times> element) list \<Rightarrow> step_result" where
  "calculate_corrected_steps py export_xml =
     correct_steps (extract_workout_times py export_xml)
       (extract_steps_with_times py export_xml)"

section \<open>health_analyzer.py: HealthDataParser\<close>

record heart_rate_entry =
  hr_date :: string
  hr_value :: real

record step_entry =
  st_date :: string
  st_value :: int

record energy_entry =
  en_date :: string
  en_type :: string
  en_value :: real

record workout_statistic =
  ws_average :: "string option"
  ws_minimum :: "string option"
  ws_maximum :: "string option"
  ws_sum :: "string option"
  ws_unit :: "string option"

record workout_info =
  wi_type :: string
  wi_start_date :: string
  wi_end_date :: "string option"
  wi_duration :: "string option"
  wi_duration_unit :: "string option"
  wi_source :: "string option"
  wi_statistics :: "(string \<times> workout_statistic) list"

text \<open>
  The fields of the parser object. \<open>stats\<close> is the \<open>defaultdict(int)\<close>, kept as
  an association list in insertion order.
\<close>

record health_data_parser =
  stats :: "(string \<times> nat) list"
  workouts :: "workout_info list"
  heart_rate_data :: "heart_rate_entry list"
  step_data :: "step_entry list"
  energy_data :: "energy_entry list"

definition init_parser :: health_data_parser where
  "init_parser = \<lparr>stats = [], workouts = [], heart_rate_data = [], step_data = [],
     energy_data = []\<rparr>"

text \<open>\<open>self.stats[record_type] += 1\<close>\<close>

definition count_up :: "string \<Rightarrow> (string \<times> nat) list \<Rightarrow> (string \<times> nat) list" where
  "count_up k d = AList.update k (case map_of d k of None \<Rightarrow> 1 | Some n \<Rightarrow> n + 1) d"

text \<open>The date of a record or workout: the text before the first blank.\<close>

definition date_token :: "string \<Rightarrow> string" where
  "date_token start_date_str = hd (split CHR '' '' start_date_str)"

definition process_record :: "python \<Rightarrow> health_data_parser \<Rightarrow> element \<Rightarrow> health_data_parser" where
  "process_record py self elem =
     (case get elem ''startDate'' of
        None \<Rightarrow> self
      | Some start_date_str \<Rightarrow>
          if start_date_str = [] then self
          else
            (case strptime_ymd py (date_token start_date_str) of
               None \<Rightarrow> self
             | Some record_date \<Rightarrow>
                 if record_date \<ge> start_date then
                   (let record_type = get_default elem ''type'' ''Unknown'';
                        self1 = self\<lparr>stats := count_up record_type (stats self)\<rparr>;
                        v = get elem ''value''
                    in if record_type = ''HKQuantityTypeIdentifierHeartRate'' then
                         (case present v of
                            None \<Rightarrow> self1
                          | Some s \<Rightarrow>
                            (case float_of_str py s of
                               None \<Rightarrow> self1
                             | Some x \<Rightarrow> self1\<lparr>heart_rate_data := heart_rate_data self1 @
                                 [\<lparr>hr_date = start_date_str, hr_value = x\<rparr>]\<rparr>))
                       else if record_type = ''HKQuantityTypeIdentifierStepCount'' then
                         (case present v of
                            None \<Rightarrow> self1
                          | Some s \<Rightarrow>
                            (case int_of_str py s of
                               None \<Rightarrow> self1
                             | Some n \<Rightarrow> self1\<lparr>step_data := step_data self1 @
                                 [\<lparr>st_date = start_date_str, st_value = n\<rparr>]\<rparr>))
                       else if record_type \<in> set [''HKQuantityTypeIdentifierActiveEnergyBurned'',
                                 ''HKQuantityTypeIdentifierBasalEnergyBurned''] then
                         (case present v of
                            None \<Rightarrow> self1
                          | Some s \<Rightarrow>
                            (case float_of_str py s of
                               None \<Rightarrow> self1
                             | Some x \<Rightarrow> self1\<lparr>energy_data := energy_data self1 @
                                 [\<lparr>en_date = start_date_str, en_type = record_type,
                                   en_value = x\<rparr>]\<rparr>))
                       else self1)
                 else self))"

definition statistic_of :: "element \<Rightarrow> workout_statistic" where
  "statistic_of stat_elem =
     \<lparr>ws_average = get stat_elem ''average'', ws_minimum = get stat_elem ''minimum'',
      ws_maximum = get stat_elem ''maximum'', ws_sum = get stat_elem ''sum'',
      ws_unit = get stat_elem ''unit''\<rparr>"

definition add_statistic ::
  "(string \<times> workout_statistic) list \<Rightarrow> element \<Rightarrow> (string \<times> workout_statistic) list" where
  "add_statistic d stat_elem =
     (case present (get stat_elem ''type'') of
        None \<Rightarrow> d
      | Some stat_type \<Rightarrow> AList.update stat_type (statistic_of stat_elem) d)"

definition process_workout :: "python \<Rightarrow> health_data_parser \<Rightarrow> element \<Rightarrow> health_data_parser" where
  "process_workout py self elem =
     (case get elem ''startDate'' of
        None \<Rightarrow> self
      | Some start_date_str \<Rightarrow>
          if start_date_str = [] then self
          else
            (case strptime_ymd py (date_token start_date_str) of
               None \<Rightarrow> self
             | Some workout_date \<Rightarrow>
                 if workout_date \<ge> start_date then
                   self\<lparr>workouts := workouts self @
                     [\<lparr>wi_type = get_default elem ''workoutActivityType'' ''Unknown'',
                       wi_start_date = start_date_str,
                       wi_end_date = get elem ''endDate'',
                       wi_duration = get elem ''duration'',
                       wi_duration_unit = get elem ''durationUnit'',
                       wi_source = get elem ''sourceName'',
                       wi_statistics =
                         foldl add_statistic [] (findall elem ''WorkoutStatistics'')\<rparr>]\<rparr>
                 else self))"

definition parse_event :: "python \<Rightarrow> health_data_parser \<Rightarrow> event \<times> element \<Rightarrow> health_data_parser" where
  "parse_event py self ev =
     (case ev of (event, elem) \<Rightarrow>
        if event = Start then self
        else if el_tag elem = ''Record'' then process_record py self elem
        else if el_tag elem = ''Workout'' then process_workout py self elem
        else self)"

definition parse_xml_streaming ::
  "python \<Rightarrow> health_data_parser \<Rightarrow> (event \<times> element) list \<Rightarrow> health_data_parser" where
  "parse_xml_streaming py self context = foldl (parse_event py) self context"

subsection \<open>The reporters\<close>

text \<open>
  A reporter returns either the dictionary with the single key \<open>message\<close> or its
  statistics. Division, \<open>min\<close> and \<open>max\<close> raise on an empty collection, so every
  reporter has a result of type \<open>py_error + _\<close>.
\<close>

datatype 'a report = Message string | Report 'a

text \<open>
  \<open>x / n\<close> for a \<open>float\<close> \<open>x\<close> and a length \<open>n\<close>: a \<open>float\<close> that is too
  large becomes \<open>inf\<close> and nothing is raised.
\<close>

definition py_div :: "real \<Rightarrow> nat \<Rightarrow> py_error + real" where
  "py_div x n = (if n = 0 then Inl ZeroDivisionError else Inr (x / real n))"

text \<open>
  \<open>a / n\<close> for an \<open>int\<close> \<open>a\<close> and a length \<open>n\<close>: the true division of two
  integers gives the \<open>float\<close> nearest to the quotient and raises \<open>OverflowError\<close>
  when that is beyond the largest \<open>float\<close>, which is the case from
  \<open>2 ^ 1024 - 2 ^ 970\<close> on (half a step above the largest \<open>float\<close>,
  \<open>2 ^ 1024 - 2 ^ 971\<close>).
\<close>

definition float_overflow_bound :: real where
  "float_overflow_bound = 2 ^ 1024 - 2 ^ 970"

definition py_int_div :: "int \<Rightarrow> nat \<Rightarrow> py_error + real" where
  "py_int_div a n =
     (if n = 0 then Inl ZeroDivisionError
      else if float_overflow_bound \<le> \<bar>real_of_int a / real n\<bar> then Inl OverflowError
      else Inr (real_of_int a / real n))"

fun py_min :: "('a::linorder) list \<Rightarrow> py_error + 'a" where
  "py_min [] = Inl ValueError"
| "py_min (x # xs) = Inr (foldl (\<lambda>m y. if y < m then y else m) x xs)"

fun py_max :: "('a::linorder) list \<Rightarrow> py_error + 'a" where
  "py_max [] = Inl ValueError"
| "py_max (x # xs) = Inr (foldl (\<lambda>m y. if y > m then y else m) x xs)"

text \<open>\<open>xs[-n:]\<close>\<close>

definition last_n :: "nat \<Rightarrow> 'a list \<Rightarrow> 'a list" where
  "last_n n xs = drop (length xs - n) xs"

record heart_rate_summary =
  hs_total_readings :: nat
  hs_average :: real
  hs_min :: real
  hs_max :: real
  hs_recent_readings :: "heart_rate_entry list"

definition analyze_heart_rate :: "health_data_parser \<Rightarrow> py_error + heart_rate_summary report" where
  "analyze_heart_rate self =
     (if heart_rate_data self = [] then Inr (Message ''No heart rate data found'')
      else
        (let values = map hr_value (heart_rate_data self) in
         case py_div (py_sum values) (length values) of
           Inl e \<Rightarrow> Inl e
         | Inr average \<Rightarrow>
             (case py_min values of
                Inl e \<Rightarrow> Inl e
              | Inr mn \<Rightarrow>
                  (case py_max values of
                     Inl e \<Rightarrow> Inl e
                   | Inr mx \<Rightarrow>
                       Inr (Report \<lparr>hs_total_readings = length values, hs_average = average,
                         hs_min = mn, hs_max = mx,
                         hs_recent_readings = last_n 10 (heart_rate_data self)\<rparr>)))))"

record step_summary =
  ss_total_days :: nat
  ss_total_steps :: int
  ss_average_daily :: real
  ss_max_daily :: int
  ss_min_daily :: int
  ss_daily_breakdown :: "(string \<times> int) list"

text \<open>\<open>daily_steps[date_key] += step['value']\<close> on a \<open>defaultdict(int)\<close>\<close>

definition add_daily :: "(string \<times> int) list \<Rightarrow> step_entry \<Rightarrow> (string \<times> int) list" where
  "add_daily daily_steps step =
     (let date_key = date_token (st_date step)
      in AList.update date_key
           ((case map_of daily_steps date_key of None \<Rightarrow> 0 | Some n \<Rightarrow> n) + st_value step)
           daily_steps)"

definition analyze_steps :: "health_data_parser \<Rightarrow> py_error + step_summary report" where
  "analyze_steps self =
     (if step_data self = [] then Inr (Message ''No step data found'')
      else
        (let daily_steps = foldl add_daily [] (step_data self);
             values = map snd daily_steps
         in case py_int_div (py_sum values) (length values) of
              Inl e \<Rightarrow> Inl e
            | Inr average \<Rightarrow>
                (case py_max values of
                   Inl e \<Rightarrow> Inl e
                 | Inr mx \<Rightarrow>
                     (case py_min values of
                        Inl e \<Rightarrow> Inl e
                      | Inr mn \<Rightarrow>
                          Inr (Report \<lparr>ss_total_days = length daily_steps,
                            ss_total_steps = py_sum values, ss_average_daily = average,
                            ss_max_daily = mx, ss_min_daily = mn,
                            ss_daily_breakdown = daily_steps\<rparr>)))))"

record energy_stats =
  es_total :: real
  es_average :: real
  es_max :: real

text \<open>The result dictionary of \<open>_analyze_energy\<close>: each key is there or not.\<close>

record energy_summary =
  active_energy :: "energy_stats option"
  basal_energy :: "energy_stats option"

text \<open>One of the two guarded blocks of \<open>_analyze_energy\<close>.\<close>

definition energy_block :: "energy_entry list \<Rightarrow> py_error + energy_stats option" where
  "energy_block entries =
     (if entries \<noteq> [] then
        (let values = map en_value entries in
         case py_div (py_sum values) (length values) of
           Inl e \<Rightarrow> Inl e
         | Inr average \<Rightarrow>
             (case py_max values of
                Inl e \<Rightarrow> Inl e
              | Inr mx \<Rightarrow>
                  Inr (Some \<lparr>es_total = py_sum values, es_average = average, es_max = mx\<rparr>)))
      else Inr None)"

definition analyze_energy :: "health_data_parser \<Rightarrow> py_error + energy_summary report" where
  "analyze_energy self =
     (if energy_data self = [] then Inr (Message ''No energy data found'')
      else
        (let active = filter (\<lambda>e. str_in ''ActiveEnergy'' (en_type e)) (energy_data self);
             basal = filter (\<lambda>e. str_in ''BasalEnergy'' (en_type e)) (energy_data self)
         in case energy_block active of
              Inl e \<Rightarrow> Inl e
            | Inr a \<Rightarrow>
                (case energy_block basal of
                   Inl e \<Rightarrow> Inl e
                 | Inr b \<Rightarrow> Inr (Report \<lparr>active_energy = a, basal_energy = b\<rparr>))))"

record workout_summary =
  wo_total_workouts :: nat
  wo_workout_types :: "(string \<times> nat) list"
  wo_total_duration_minutes :: real
  wo_average_duration :: real
  wo_recent_workouts :: "workout_info list"

text \<open>The body of the loop that adds the durations up.\<close>

definition add_duration :: "python \<Rightarrow> real \<Rightarrow> workout_info \<Rightarrow> real" where
  "add_duration py total_duration workout =
     (case present (wi_duration workout) of
        None \<Rightarrow> total_duration
      | Some d \<Rightarrow>
          (case float_of_str py d of
             None \<Rightarrow> total_duration
           | Some x \<Rightarrow> total_duration + x))"

definition analyze_workouts ::
  "python \<Rightarrow> health_data_parser \<Rightarrow> py_error + workout_summary report" where
  "analyze_workouts py self =
     (if workouts self = [] then Inr (Message ''No workouts found'')
      else
        (let workout_types = foldl (\<lambda>c w. count_up (wi_type w) c) [] (workouts self);
             total_duration = foldl (add_duration py) 0 (workouts self)
         in case (if workouts self \<noteq> [] then py_div total_duration (length (workouts self))
                  else Inr 0) of
              Inl e \<Rightarrow> Inl e
            | Inr average \<Rightarrow>
                Inr (Report \<lparr>wo_total_workouts = length (workouts self),
                  wo_workout_types = workout_types,
                  wo_total_duration_minutes = total_duration,
                  wo_average_duration = average,
                  wo_recent_workouts = last_n 5 (workouts self)\<rparr>)))"

record health_summary =
  hsum_period :: string
  hsum_total_records :: nat
  hsum_total_workouts :: nat
  hsum_record_types :: "(string \<times> nat) list"
  hsum_workouts :: "workout_info list"
  hsum_heart_rate_summary :: "heart_rate_summary report"
  hsum_step_summary :: "step_summary report"
  hsum_energy_summary :: "energy_summary report"
  hsum_workout_summary :: "workout_summary report"

definition generate_summary :: "python \<Rightarrow> health_data_parser \<Rightarrow> py_error + health_summary" where
  "generate_summary py self =
     (case analyze_heart_rate self of
        Inl e \<Rightarrow> Inl e
      | Inr hr \<Rightarrow>
          (case analyze_steps self of
             Inl e \<Rightarrow> Inl e
           | Inr st \<Rightarrow>
               (case analyze_energy self of
                  Inl e \<Rightarrow> Inl e
                | Inr en \<Rightarrow>
                    (case analyze_workouts py self of
                       Inl e \<Rightarrow> Inl e
                     | Inr wo \<Rightarrow>
                         Inr \<lparr>hsum_period = ''From '' @ strftime_ymd py start_date @ '' to present'',
                           hsum_total_records = py_sum (map snd (stats self)),
                           hsum_total_workouts = length (workouts self),
                           hsum_record_types = stats self,
                           hsum_workouts = workouts self,
                           hsum_heart_rate_summary = hr,
                           hsum_step_summary = st,
                           hsum_energy_summary = en,
                           hsum_workout_summary = wo\<rparr>))))"

section \<open>gpx_analyzer.py: GPXAnalyzer\<close>

record track_point =
  tp_lat :: real
  tp_lon :: real
  tp_ele :: "real option"
  tp_time :: "string option"

subsection \<open>Distance\<close>

definition radians :: "real \<Rightarrow> real" where
  "radians x = x * pi / 180"

text \<open>
  \<open>math.sqrt\<close> raises \<open>ValueError\<close> below 0. Over the reals the haversine term
  \<open>a\<close> lies between 0 and 1; in \<open>float\<close> arithmetic rounding can put it just
  outside, which the real numbers of this model do not show.
\<close>

definition math_sqrt :: "real \<Rightarrow> py_error + real" where
  "math_sqrt x = (if x < 0 then Inl ValueError else Inr (sqrt x))"

definition atan2 :: "real \<Rightarrow> real \<Rightarrow> real" where
  "atan2 y x =
     (if x > 0 then arctan (y / x)
      else if x < 0 \<and> y \<ge> 0 then arctan (y / x) + pi
      else if x < 0 then arctan (y / x) - pi
      else if y > 0 then pi / 2
      else if y < 0 then - pi / 2
      else 0)"

definition segment_distance :: "track_point \<Rightarrow> track_point \<Rightarrow> py_error + real" where
  "segment_distance p1 p2 =
     (let lat1_rad = radians (tp_lat p1);
          lat2_rad = radians (tp_lat p2);
          delta_lat = radians (tp_lat p2 - tp_lat p1);
          delta_lon = radians (tp_lon p2 - tp_lon p1);
          a = (sin (delta_lat / 2))\<^sup>2 + cos lat1_rad * cos lat2_rad * (sin (delta_lon / 2))\<^sup>2
      in case math_sqrt a of
           Inl e \<Rightarrow> Inl e
         | Inr sa \<Rightarrow>
             (case math_sqrt (1 - a) of
                Inl e \<Rightarrow> Inl e
              | Inr sb \<Rightarrow> Inr (6371 * (2 * atan2 sa sb))))"

fun distance_loop :: "track_point list \<Rightarrow> nat list \<Rightarrow> real \<Rightarrow> py_error + real" where
  "distance_loop points [] total_distance = Inr total_distance"
| "distance_loop points (i # rest) total_distance =
     (case segment_distance (points ! i) (points ! (i + 1)) of
        Inl e \<Rightarrow> Inl e
      | Inr distance \<Rightarrow> distance_loop points rest (total_distance + distance))"

definition calculate_distance :: "track_point list \<Rightarrow> py_error + real" where
  "calculate_distance points =
     (if length points < 2 then Inr 0
      else distance_loop points [0 ..< length points - 1] 0)"

subsection \<open>Elevation gain\<close>

text \<open>The body of the loop over \<open>range(len(points) - 1)\<close>.\<close>

definition elevation_step :: "track_point list \<Rightarrow> real \<Rightarrow> nat \<Rightarrow> real" where
  "elevation_step points elevation_gain i =
     (case (tp_ele (points ! i), tp_ele (points ! (i + 1))) of
        (Some ele1, Some ele2) \<Rightarrow>
          (let elevation_diff = ele2 - ele1
           in if elevation_diff > 0 then elevation_gain + elevation_diff else elevation_gain)
      | _ \<Rightarrow> elevation_gain)"

definition calculate_elevation_gain :: "track_point list \<Rightarrow> real" where
  "calculate_elevation_gain points =
     (if length points < 2 then 0
      else foldl (elevation_step points) 0 [0 ..< length points - 1])"

subsection \<open>Duration\<close>

text \<open>The body of the loop that looks for the first and the last time.\<close>

definition scan_time ::
  "string option \<times> string option \<Rightarrow> track_point \<Rightarrow> string option \<times> string option" where
  "scan_time found point =
     (case found of (start_time, end_time) \<Rightarrow>
        if truthy (tp_time point)
        then ((if start_time = None then tp_time point else start_time), tp_time point)
        else (start_time, end_time))"

text \<open>\<open>s.replace('Z', '+00:00')\<close>\<close>

definition replace_Z :: "string \<Rightarrow> string" where
  "replace_Z s = concat (map (\<lambda>c. if c = CHR ''Z'' then ''+00:00'' else [c]) s)"

text \<open>
  \<open>end_dt - start_dt\<close>, a \<open>timedelta\<close> in microseconds: Python refuses to subtract
  an aware and a naive value.
\<close>

definition dt_sub :: "iso_datetime \<Rightarrow> iso_datetime \<Rightarrow> py_error + int" where
  "dt_sub a b =
     (case (iso_offset a, iso_offset b) of
        (None, None) \<Rightarrow> Inr (iso_wall a - iso_wall b)
      | (Some oa, Some ob) \<Rightarrow> Inr ((iso_wall a - oa) - (iso_wall b - ob))
      | _ \<Rightarrow> Inl TypeError)"

definition total_seconds :: "int \<Rightarrow> real" where
  "total_seconds td = real_of_int td / 1000000"

definition calculate_duration :: "python \<Rightarrow> track_point list \<Rightarrow> py_error + real" where
  "calculate_duration py points =
     (if length points < 2 then Inr 0
      else
        (case foldl scan_time (None, None) points of (start_time, end_time) \<Rightarrow>
           (case (present start_time, present end_time) of
              (Some s, Some e) \<Rightarrow>
                (case fromisoformat py (replace_Z s) of
                   None \<Rightarrow> Inr 0
                 | Some start_dt \<Rightarrow>
                     (case fromisoformat py (replace_Z e) of
                        None \<Rightarrow> Inr 0
                      | Some end_dt \<Rightarrow>
                          (case dt_sub end_dt start_dt of
                             Inl err \<Rightarrow> Inl err
                           | Inr td \<Rightarrow> Inr (total_seconds td / 60))))
            | _ \<Rightarrow> Inr 0)))"

subsection \<open>One route file\<close>

record route_info =
  ri_filename :: string
  ri_date :: string
  ri_datetime :: string
  ri_track_points :: nat
  ri_distance_km :: real
  ri_elevation_gain_m :: real
  ri_duration_minutes :: real
  ri_start_point :: "real \<times> real"
  ri_end_point :: "real \<times> real"

definition gpx_ns :: "string \<Rightarrow> string" where
  "gpx_ns name = ''{http://www.topografix.com/GPX/1/1}'' @ name"

text \<open>\<open>float(trkpt.get(key, 0))\<close>\<close>

definition float_attr :: "python \<Rightarrow> element \<Rightarrow> string \<Rightarrow> py_error + real" where
  "float_attr py trkpt key =
     (case get trkpt key of
        None \<Rightarrow> Inr 0
      | Some s \<Rightarrow> (case float_of_str py s of None \<Rightarrow> Inl ValueError | Some x \<Rightarrow> Inr x))"

text \<open>\<open>float(ele.text) if ele is not None else None\<close>\<close>

definition ele_of :: "python \<Rightarrow> element \<Rightarrow> py_error + real option" where
  "ele_of py trkpt =
     (case find_child trkpt (gpx_ns ''ele'') of
        None \<Rightarrow> Inr None
      | Some ele \<Rightarrow>
          (case el_text ele of
             None \<Rightarrow> Inl TypeError
           | Some t \<Rightarrow>
               (case float_of_str py t of None \<Rightarrow> Inl ValueError | Some x \<Rightarrow> Inr (Some x))))"

definition time_of :: "element \<Rightarrow> string option" where
  "time_of trkpt =
     (case find_child trkpt (gpx_ns ''time'') of None \<Rightarrow> None | Some t \<Rightarrow> el_text t)"

definition point_of :: "python \<Rightarrow> element \<Rightarrow> py_error + track_point" where
  "point_of py trkpt =
     (case float_attr py trkpt ''lat'' of
        Inl e \<Rightarrow> Inl e
      | Inr lat \<Rightarrow>
          (case float_attr py trkpt ''lon'' of
             Inl e \<Rightarrow> Inl e
           | Inr lon \<Rightarrow>
               (case ele_of py trkpt of
                  Inl e \<Rightarrow> Inl e
                | Inr ele \<Rightarrow>
                    Inr \<lparr>tp_lat = lat, tp_lon = lon, tp_ele = ele, tp_time = time_of trkpt\<rparr>)))"

fun points_loop :: "python \<Rightarrow> element list \<Rightarrow> track_point list \<Rightarrow> py_error + track_point list" where
  "points_loop py [] track_points = Inr track_points"
| "points_loop py (trkpt # rest) track_points =
     (case point_of py trkpt of
        Inl e \<Rightarrow> Inl e
      | Inr point \<Rightarrow> points_loop py rest (track_points @ [point]))"

text \<open>
  The body of the \<open>try\<close> of \<open>_analyze_single_gpx\<close>, from what \<open>ET.parse\<close> gave
  (\<open>None\<close> when it raised).
\<close>

definition analyze_single_gpx_body ::
  "python \<Rightarrow> element option \<Rightarrow> string \<Rightarrow> naive_datetime \<Rightarrow> py_error + route_info option" where
  "analyze_single_gpx_body py tree filename route_date =
     (case tree of
        None \<Rightarrow> Inl ParseError
      | Some gpx_root \<Rightarrow>
          (case points_loop py (findall gpx_root (gpx_ns ''trkpt'')) [] of
             Inl e \<Rightarrow> Inl e
           | Inr track_points \<Rightarrow>
               (case track_points of
                  [] \<Rightarrow> Inr None
                | first # others \<Rightarrow>
                    (case calculate_distance track_points of
                       Inl e \<Rightarrow> Inl e
                     | Inr distance \<Rightarrow>
                         (case calculate_duration py track_points of
                            Inl e \<Rightarrow> Inl e
                          | Inr duration \<Rightarrow>
                              Inr (Some
                                \<lparr>ri_filename = filename,
                                 ri_date = strftime_ymd py route_date,
                                 ri_datetime = isoformat py route_date,
                                 ri_track_points = length track_points,
                                 ri_distance_km = distance,
                                 ri_elevation_gain_m = calculate_elevation_gain track_points,
                                 ri_duration_minutes = duration,
                                 ri_start_point = (tp_lat first, tp_lon first),
                                 ri_end_point = (tp_lat (last track_points),
                                   tp_lon (last track_points))\<rparr>))))))"

subsection \<open>The files of the directory\<close>

record filesystem =
  fs_exists :: "string \<Rightarrow> bool"
  fs_listdir :: "string \<Rightarrow> string list"
  fs_parse :: "string \<Rightarrow> element option"

datatype printed_line =
    AnalyzingFrom string
  | DirectoryNotFound string
  | CouldNotParseDate string py_error
  | ErrorAnalyzing string py_error
  | Processed nat nat

text \<open>
  The analyzer's \<open>routes\<close>, the two counters of the loop, the lines printed and the
  paths given to \<open>ET.parse\<close>, in order.
\<close>

record gpx_analyzer =
  routes :: "route_info list"
  processed_count :: nat
  total_count :: nat
  printed :: "printed_line list"
  opened :: "string list"

text \<open>The analyzer after \<open>__init__\<close>, with nothing printed or opened yet.\<close>

definition init_analyzer :: gpx_analyzer where
  "init_analyzer =
     \<lparr>routes = [], processed_count = 0, total_count = 0, printed = [], opened = []\<rparr>"

definition analyze_single_gpx ::
  "python \<Rightarrow> filesystem \<Rightarrow> gpx_analyzer \<Rightarrow> string \<Rightarrow> string \<Rightarrow> naive_datetime \<Rightarrow>
   route_info option \<times> gpx_analyzer" where
  "analyze_single_gpx py fs self file_path filename route_date =
     (let self1 = self\<lparr>opened := opened self @ [file_path]\<rparr>
      in case analyze_single_gpx_body py (fs_parse fs file_path) filename route_date of
           Inl e \<Rightarrow> (None, self1\<lparr>printed := printed self1 @ [ErrorAnalyzing filename e]\<rparr>)
         | Inr route_info \<Rightarrow> (route_info, self1))"

text \<open>\<open>os.path.join(dir, name)\<close> on POSIX.\<close>

definition path_join :: "string \<Rightarrow> string \<Rightarrow> string" where
  "path_join dir name =
     (if name \<noteq> [] \<and> hd name = CHR ''/'' then name
      else if dir = [] \<or> last dir = CHR ''/'' then dir @ name
      else dir @ ''/'' @ name)"

definition endswith :: "string \<Rightarrow> string \<Rightarrow> bool" where
  "endswith s suffix = (length suffix \<le> length s \<and> drop (length s - length suffix) s = suffix)"

text \<open>\<open>xs[i]\<close> for an index that is not negative.\<close>

definition item :: "'a list \<Rightarrow> nat \<Rightarrow> py_error + 'a" where
  "item xs i = (if i < length xs then Inr (xs ! i) else Inl IndexError)"

text \<open>The body of the loop over \<open>gpx_files\<close>.\<close>

definition analyze_file ::
  "python \<Rightarrow> filesystem \<Rightarrow> string \<Rightarrow> gpx_analyzer \<Rightarrow> string \<Rightarrow> gpx_analyzer" where
  "analyze_file py fs gpx_dir self gpx_file =
     (let self1 = self\<lparr>total_count := total_count self + 1\<rparr>;
          file_path = path_join gpx_dir gpx_file
      in case item (split CHR ''_'' gpx_file) 1 of
           Inl e \<Rightarrow> self1\<lparr>printed := printed self1 @ [CouldNotParseDate gpx_file e]\<rparr>
         | Inr date_part \<Rightarrow>
             (case strptime_ymd py date_part of
                None \<Rightarrow>
                  self1\<lparr>printed := printed self1 @ [CouldNotParseDate gpx_file ValueError]\<rparr>
              | Some route_date \<Rightarrow>
                  if route_date \<ge> start_date then
                    (case analyze_single_gpx py fs self1 file_path gpx_file route_date of
                       (None, self2) \<Rightarrow> self2
                     | (Some route_info, self2) \<Rightarrow>
                         self2\<lparr>routes := routes self2 @ [route_info],
                           processed_count := processed_count self2 + 1\<rparr>)
                  else self1))"

definition analyze_gpx_files ::
  "python \<Rightarrow> filesystem \<Rightarrow> string \<Rightarrow> gpx_analyzer \<Rightarrow> gpx_analyzer" where
  "analyze_gpx_files py fs gpx_dir self =
     (let self0 = self\<lparr>printed := printed self @ [AnalyzingFrom (strftime_ymd py start_date)]\<rparr>
      in if \<not> fs_exists fs gpx_dir
         then self0\<lparr>printed := printed self0 @ [DirectoryNotFound gpx_dir]\<rparr>
         else
           (let gpx_files = sort (filter (\<lambda>f. endswith f ''.gpx'') (fs_listdir fs gpx_dir));
                self1 = foldl (analyze_file py fs gpx_dir)
                          (self0\<lparr>processed_count := 0, total_count := 0\<rparr>) gpx_files
            in self1\<lparr>printed := printed self1 @
                 [Processed (processed_count self1) (total_count self1)]\<rparr>))"

subsection \<open>The summary of the routes\<close>

record month_stats =
  ms_routes :: nat
  ms_distance :: real
  ms_elevation :: real
  ms_duration :: real

definition add_month :: "(string \<times> month_stats) list \<Rightarrow> route_info \<Rightarrow> (string \<times> month_stats) list" where
  "add_month monthly_stats route =
     (let month_key = take 7 (ri_date route);
          old = (case map_of monthly_stats month_key of
                   None \<Rightarrow> \<lparr>ms_routes = 0, ms_distance = 0, ms_elevation = 0, ms_duration = 0\<rparr>
                 | Some m \<Rightarrow> m)
      in AList.update month_key
           \<lparr>ms_routes = ms_routes old + 1,
            ms_distance = ms_distance old + ri_distance_km route,
            ms_elevation = ms_elevation old + ri_elevation_gain_m route,
            ms_duration = ms_duration old + ri_duration_minutes route\<rparr>
           monthly_stats)"

record gpx_summary =
  gs_period :: string
  gs_total_routes :: nat
  gs_total_distance_km :: real
  gs_total_elevation_gain_m :: real
  gs_total_duration_minutes :: real
  gs_total_track_points :: nat
  gs_average_distance_per_route :: real
  gs_average_elevation_per_route :: real
  gs_average_duration_per_route :: real
  gs_monthly_breakdown :: "(string \<times> month_stats) list"
  gs_routes :: "route_info list"

definition gpx_generate_summary :: "python \<Rightarrow> gpx_analyzer \<Rightarrow> py_error + gpx_summary report" where
  "gpx_generate_summary py self =
     (if routes self = [] then Inr (Message ''No routes found for the specified period'')
      else
        (let total_distance = py_sum (map ri_distance_km (routes self));
             total_elevation = py_sum (map ri_elevation_gain_m (routes self));
             total_duration = py_sum (map ri_duration_minutes (routes self));
             total_points = py_sum (map ri_track_points (routes self));
             monthly_stats = foldl add_month [] (routes self);
             n = length (routes self)
         in case py_div total_distance n of
              Inl e \<Rightarrow> Inl e
            | Inr avg_distance \<Rightarrow>
                (case py_div total_elevation n of
                   Inl e \<Rightarrow> Inl e
                 | Inr avg_elevation \<Rightarrow>
                     (case py_div total_duration n of
                        Inl e \<Rightarrow> Inl e
                      | Inr avg_duration \<Rightarrow>
                          Inr (Report
                            \<lparr>gs_period = ''From '' @ strftime_ymd py start_date @ '' to present'',
                             gs_total_routes = n,
                             gs_total_distance_km = total_distance,
                             gs_total_elevation_gain_m = total_elevation,
                             gs_total_duration_minutes = total_duration,
                             gs_total_track_points = total_points,
                             gs_average_distance_per_route = avg_distance,
                             gs_average_elevation_per_route = avg_elevation,
                             gs_average_duration_per_route = avg_duration,
                             gs_monthly_breakdown = monthly_stats,
                             gs_routes = routes self\<rparr>)))))"

section \<open>Notions of the specification\<close>

text \<open>
  These definitions follow the words of the specification, not the code; the theorems
  below compare the code with them.
\<close>

text \<open>
  What one pair of consecutive points adds to the elevation gain: \<open>max(0, ele2 - ele1)\<close>
  when both elevations are present, nothing otherwise.
\<close>

definition spec_pair_gain :: "track_point \<Rightarrow> track_point \<Rightarrow> real" where
  "spec_pair_gain p q =
     (case (tp_ele p, tp_ele q) of (Some ele1, Some ele2) \<Rightarrow> max 0 (ele2 - ele1) | _ \<Rightarrow> 0)"

text \<open>The timestamps of the points that carry one, in order.\<close>

definition spec_timestamps :: "track_point list \<Rightarrow> string list" where
  "spec_timestamps points =
     concat (map (\<lambda>p. case present (tp_time p) of None \<Rightarrow> [] | Some t \<Rightarrow> [t]) points)"

text \<open>
  The date a file name encodes: its second token between underscores, read as
  \<open>YYYY-MM-DD\<close>; the error when there is no such token or it is no date.
\<close>

definition spec_file_date :: "python \<Rightarrow> string \<Rightarrow> py_error + naive_datetime" where
  "spec_file_date py gpx_file =
     (case item (split CHR ''_'' gpx_file) 1 of
        Inl e \<Rightarrow> Inl e
      | Inr date_part \<Rightarrow>
          (case strptime_ymd py date_part of None \<Rightarrow> Inl ValueError | Some d \<Rightarrow> Inr d))"

text \<open>A file is taken when its name encodes a date that is not before the cutoff.\<close>

definition spec_accepted :: "python \<Rightarrow> string \<Rightarrow> bool" where
  "spec_accepted py gpx_file =
     (case spec_file_date py gpx_file of Inl e \<Rightarrow> False | Inr d \<Rightarrow> start_date \<le> d)"

text \<open>The date of a \<open>startDate\<close> attribute reads as a date at or after the cutoff.\<close>

definition spec_on_or_after_cutoff :: "python \<Rightarrow> string \<Rightarrow> bool" where
  "spec_on_or_after_cutoff py start_date_str =
     (case strptime_ymd py (date_token start_date_str) of
        None \<Rightarrow> False
      | Some d \<Rightarrow> start_date \<le> d)"

text \<open>Every entry of the three collections of the parser is at or after the cutoff.\<close>

definition spec_cutoff_inv :: "python \<Rightarrow> health_data_parser \<Rightarrow> bool" where
  "spec_cutoff_inv py self =
     ((\<forall>e \<in> set (step_data self). spec_on_or_after_cutoff py (st_date e))
      \<and> (\<forall>e \<in> set (heart_rate_data self). spec_on_or_after_cutoff py (hr_date e))
      \<and> (\<forall>e \<in> set (energy_data self). spec_on_or_after_cutoff py (en_date e)))"

section \<open>Sample inputs\<close>

text \<open>
  The values of Python's library functions on the strings that the samples below use;
  on every other string the tables are silent.
\<close>

definition sample_python :: python where
  "sample_python =
     \<lparr>strptime_z = map_of
        [(''2025-05-10 10:05:00 +0200'',
            \<lparr>wall = start_date + 9 * 86400000000 + 605 * 60000000, utcoffset = 7200000000\<rparr>),
         (''2025-05-10 10:10:00 +0200'',
            \<lparr>wall = start_date + 9 * 86400000000 + 610 * 60000000, utcoffset = 7200000000\<rparr>),
         (''2025-04-30 23:55:00 +0200'',
            \<lparr>wall = start_date - 5 * 60000000, utcoffset = 7200000000\<rparr>),
         (''2025-04-30 23:59:00 +0200'',
            \<lparr>wall = start_date - 1 * 60000000, utcoffset = 7200000000\<rparr>)],
      strptime_ymd = map_of
        [(''2025-05-10'', start_date + 9 * 86400000000),
         (''2025-04-30'', start_date - 86400000000)],
      int_of_str = map_of [(''500'', 500), (''200'', 200)],
      float_of_str = map_of [(''30.5'', 30.5), (''72'', 72), (''52.1'', 52.1), (''21.0'', 21)],
      fromisoformat = map_of
        [(''2025-05-10T10:00:00+00:00'',
            \<lparr>iso_wall = start_date + 9 * 86400000000 + 600 * 60000000, iso_offset = Some 0\<rparr>),
         (''2025-05-10T10:30:00+00:00'',
            \<lparr>iso_wall = start_date + 9 * 86400000000 + 630 * 60000000, iso_offset = Some 0\<rparr>),
         (''2025-05-10T10:30:00'',
            \<lparr>iso_wall = start_date + 9 * 86400000000 + 630 * 60000000, iso_offset = None\<rparr>)],
      strftime_ymd = (\<lambda>d. if d = start_date then ''2025-05-01''
        else if d = start_date + 9 * 86400000000 then ''2025-05-10'' else []),
      isoformat = (\<lambda>d. if d = start_date + 9 * 86400000000 then ''2025-05-10T00:00:00''
        else [])\<rparr>"

text \<open>A track point near Warsaw with the given elevation and time.\<close>

definition sample_point :: "real option \<Rightarrow> string option \<Rightarrow> track_point" where
  "sample_point h t = \<lparr>tp_lat = 52.1, tp_lon = 21, tp_ele = h, tp_time = t\<rparr>"

text \<open>A route file with two points, half an hour apart, and the directory it is in.\<close>

definition sample_trkpt :: "string \<Rightarrow> element" where
  "sample_trkpt t =
     Element (gpx_ns ''trkpt'') [(''lat'', ''52.1''), (''lon'', ''21.0'')] None
       [Element (gpx_ns ''ele'') [] (Some ''72'') [],
        Element (gpx_ns ''time'') [] (Some t) []]"

definition sample_gpx :: element where
  "sample_gpx =
     Element (gpx_ns ''gpx'') [] None
       [Element (gpx_ns ''trk'') [] None
          [Element (gpx_ns ''trkseg'') [] None
             [sample_trkpt ''2025-05-10T10:00:00Z'', sample_trkpt ''2025-05-10T10:30:00Z'']]]"

definition sample_fs :: filesystem where
  "sample_fs =
     \<lparr>fs_exists = (\<lambda>d. d = ''workout-routes''),
      fs_listdir = (\<lambda>d. if d = ''workout-routes''
        then [''route_2025-05-10_5.09pm.gpx'', ''route_notes.txt'', ''badname.gpx'',
              ''route_2025-04-30_8.00am.gpx'', ''route_soon_1.gpx'']
        else []),
      fs_parse = (\<lambda>p. if p = ''workout-routes/route_2025-05-10_5.09pm.gpx''
        then Some sample_gpx else None)\<rparr>"

text \<open>An export with two step records, the first one of the day before the cutoff.\<close>

definition sample_record :: "string \<Rightarrow> string \<Rightarrow> string \<Rightarrow> element" where
  "sample_record start_str end_str v =
     Element ''Record''
       [(''type'', ''HKQuantityTypeIdentifierStepCount''), (''sourceName'', ''Watch''),
        (''startDate'', start_str), (''endDate'', end_str), (''value'', v)] None []"

definition sample_export :: "(event \<times> element) list" where
  "sample_export =
     [(Start, sample_record ''2025-04-30 23:55:00 +0200'' ''2025-04-30 23:59:00 +0200'' ''200''),
      (End, sample_record ''2025-04-30 23:55:00 +0200'' ''2025-04-30 23:59:00 +0200'' ''200''),
      (Start, sample_record ''2025-05-10 10:05:00 +0200'' ''2025-05-10 10:10:00 +0200'' ''500''),
      (End, sample_record ''2025-05-10 10:05:00 +0200'' ''2025-05-10 10:10:00 +0200'' ''500'')]"

definition sample_workout_info :: "string option \<Rightarrow> workout_info" where
  "sample_workout_info d =
     \<lparr>wi_type = ''HKWorkoutActivityTypeCycling'', wi_start_date = ''2025-05-10 10:00:00 +0200'',
      wi_end_date = Some ''2025-05-10 10:30:00 +0200'', wi_duration = d,
      wi_duration_unit = Some ''min'', wi_source = Some ''Watch'', wi_statistics = []\<rparr>"

text \<open>
  The scenario of the specification: times of day on 2025-05-10 at UTC+02:00, given in
  minutes after midnight; a workout from 10:00 to 10:30 and step records at
  10:05--10:10 (500 steps) and 11:00--11:05 (200 steps).
\<close>

definition sample_time :: "int \<Rightarrow> aware_datetime" where
  "sample_time m = \<lparr>wall = start_date + 9 * 86400000000 + m * 60000000,
     utcoffset = 7200000000\<rparr>"

definition sample_workout :: "string \<Rightarrow> workout_time" where
  "sample_workout activity =
     \<lparr>w_start = sample_time 600, w_end = sample_time 630, w_type = activity\<rparr>"

definition sample_step_a :: step_record where
  "sample_step_a = \<lparr>s_start = sample_time 605, s_end = sample_time 610, s_value = 500,
     s_source = ''Watch''\<rparr>"

definition sample_step_b :: step_record where
  "sample_step_b = \<lparr>s_start = sample_time 660, s_end = sample_time 665, s_value = 200,
     s_source = ''Watch''\<rparr>"

section \<open>Properties of the step correction\<close>

lemma py_sum_foldl: "foldl (+) a xs = a + sum_list (xs :: ('a::monoid_add) list)"
  by (induction xs arbitrary: a) (simp_all add: add.assoc)

lemma py_sum_sum_list: "py_sum xs = sum_list xs"
  by (simp add: py_sum_def py_sum_foldl)

lemma is_step_during_workout_iff:
  "is_step_during_workout step ws = (\<exists>w \<in> set ws. overlaps step w)"
  by (induction ws) auto

text \<open>The loop over the step records is three filters, one per branch of the chain.\<close>

lemma classify_foldl:
  "foldl (classify_step c k w) acc steps =
     \<lparr>steps_during_cycling = steps_during_cycling acc @
        filter (\<lambda>s. is_step_during_workout s c) steps,
      steps_during_skating = steps_during_skating acc @
        filter (\<lambda>s. \<not> is_step_during_workout s c \<and> is_step_during_workout s k) steps,
      steps_during_walking = steps_during_walking acc @
        filter (\<lambda>s. \<not> is_step_during_workout s c \<and> \<not> is_step_during_workout s k \<and>
          is_step_during_workout s w) steps\<rparr>"
  by (induction steps arbitrary: acc) (simp_all add: classify_step_def)

lemma classify_steps_filter:
  "classify_steps ws steps =
     \<lparr>steps_during_cycling = filter (\<lambda>s. is_step_during_workout s (cycling_of ws)) steps,
      steps_during_skating = filter (\<lambda>s. \<not> is_step_during_workout s (cycling_of ws) \<and>
        is_step_during_workout s (skating_of ws)) steps,
      steps_during_walking = filter (\<lambda>s. \<not> is_step_during_workout s (cycling_of ws) \<and>
        \<not> is_step_during_workout s (skating_of ws) \<and>
        is_step_during_workout s (walking_of ws)) steps\<rparr>"
  by (simp add: classify_steps_def classify_foldl)

lemma during_class:
  "is_step_during_workout s (filter P ws) = (\<exists>w \<in> set ws. P w \<and> overlaps s w)"
  by (auto simp: is_step_during_workout_iff)

lemma count_list_filter: "count_list (filter P xs) x = (if P x then count_list xs x else 0)"
  by (induction xs) auto

lemma sum_three_classes:
  fixes f :: "'a \<Rightarrow> int"
  assumes "\<forall>x \<in> set xs. 0 \<le> f x"
  shows "sum_list (map f (filter P xs)) + sum_list (map f (filter (\<lambda>x. \<not> P x \<and> Q x) xs))
         + sum_list (map f (filter (\<lambda>x. \<not> P x \<and> \<not> Q x \<and> R x) xs)) \<le> sum_list (map f xs)"
  using assms by (induction xs) auto

lemmas sample_simps =
  sample_time_def sample_workout_def sample_step_a_def sample_step_b_def start_date_def
  classify_steps_def classify_step_def cycling_of_def skating_of_def walking_of_def
  overlaps_def dt_le_def dt_ge_def utc_def

text \<open>
  C1. For all workout intervals and all step records, the corrected steps plus the
  cycling steps plus the skating steps are the total steps, where the total is the sum
  of all step values and the cycling and skating steps are the sums of the values of
  the records put in those classes.
\<close>

theorem corrected_plus_removed_is_total:
  "corrected_steps (correct_steps workout_times step_records)
     + cycling_steps (correct_steps workout_times step_records)
     + skating_steps (correct_steps workout_times step_records)
   = total_steps (correct_steps workout_times step_records)
   \<and> total_steps (correct_steps workout_times step_records) = sum_list (map s_value step_records)
   \<and> cycling_steps (correct_steps workout_times step_records)
       = sum_list (map s_value (steps_during_cycling (classify_steps workout_times step_records)))
   \<and> skating_steps (correct_steps workout_times step_records)
       = sum_list (map s_value (steps_during_skating (classify_steps workout_times step_records)))"
  by (simp add: correct_steps_def Let_def py_sum_sum_list)

theorem corrected_plus_removed_is_total_witness:
  "corrected_steps (correct_steps [sample_workout ''HKWorkoutActivityTypeCycling'']
      [sample_step_a, sample_step_b]) = 200
   \<and> cycling_steps (correct_steps [sample_workout ''HKWorkoutActivityTypeCycling'']
      [sample_step_a, sample_step_b]) = 500
   \<and> total_steps (correct_steps [sample_workout ''HKWorkoutActivityTypeCycling'']
      [sample_step_a, sample_step_b]) = 700"
  using corrected_plus_removed_is_total [of "[sample_workout ''HKWorkoutActivityTypeCycling'']"
      "[sample_step_a, sample_step_b]"]
  by (simp add: sample_simps)

text \<open>
  C2. A step record that overlaps a cycling workout and also a skating workout is put
  in the cycling class, every time it occurs in the list, and in neither the skating nor
  the walking class.
\<close>

theorem cycling_wins_over_skating:
  assumes "step \<in> set step_records"
    and "\<exists>w \<in> set workout_times. str_in ''Cycling'' (w_type w) \<and> overlaps step w"
    and "\<exists>w \<in> set workout_times. str_in ''Skating'' (w_type w) \<and> overlaps step w"
  shows "step \<in> set (steps_during_cycling (classify_steps workout_times step_records))
       \<and> step \<notin> set (steps_during_skating (classify_steps workout_times step_records))
       \<and> step \<notin> set (steps_during_walking (classify_steps workout_times step_records))
       \<and> count_list (steps_during_cycling (classify_steps workout_times step_records)) step
           = count_list step_records step"
proof -
  have c: "is_step_during_workout step (cycling_of workout_times)"
    using assms(2) by (simp add: cycling_of_def during_class)
  show ?thesis
    using assms(1) c by (simp add: classify_steps_filter count_list_filter)
qed

theorem cycling_wins_over_skating_witness:
  "sample_step_a \<in> set (steps_during_cycling (classify_steps
      [sample_workout ''HKWorkoutActivityTypeSkatingSports'',
       sample_workout ''HKWorkoutActivityTypeCycling''] [sample_step_a, sample_step_b]))
   \<and> sample_step_a \<notin> set (steps_during_skating (classify_steps
      [sample_workout ''HKWorkoutActivityTypeSkatingSports'',
       sample_workout ''HKWorkoutActivityTypeCycling''] [sample_step_a, sample_step_b]))
   \<and> overlaps sample_step_a (sample_workout ''HKWorkoutActivityTypeSkatingSports'')
   \<and> str_in ''Skating'' ''HKWorkoutActivityTypeSkatingSports''"
  using cycling_wins_over_skating [of sample_step_a "[sample_step_a, sample_step_b]"
      "[sample_workout ''HKWorkoutActivityTypeSkatingSports'',
        sample_workout ''HKWorkoutActivityTypeCycling'']"]
  by (simp add: sample_simps)

text \<open>
  C3. The overlap test of a step record against one workout is true exactly when the
  step starts no later than the workout ends and ends no earlier than the workout
  starts, as instants; against a list it is true exactly when some workout passes that
  test; two intervals that only touch at an end point overlap.
\<close>

theorem overlap_test_inclusive:
  "is_step_during_workout step [workout]
     = (utc (s_start step) \<le> utc (w_end workout) \<and> utc (s_end step) \<ge> utc (w_start workout))
   \<and> is_step_during_workout step workout_times
     = (\<exists>w \<in> set workout_times.
          utc (s_start step) \<le> utc (w_end w) \<and> utc (s_end step) \<ge> utc (w_start w))
   \<and> (utc (s_start step) \<le> utc (s_end step) \<and> utc (w_start workout) \<le> utc (w_end workout)
        \<and> (utc (s_end step) = utc (w_start workout) \<or> utc (s_start step) = utc (w_end workout))
      \<longrightarrow> is_step_during_workout step [workout])"
  by (auto simp: is_step_during_workout_iff overlaps_def dt_le_def dt_ge_def)

theorem overlap_test_inclusive_witness:
  "utc (s_end (sample_step_a\<lparr>s_start := sample_time 590, s_end := sample_time 600\<rparr>))
     = utc (w_start (sample_workout ''HKWorkoutActivityTypeCycling''))
   \<and> is_step_during_workout (sample_step_a\<lparr>s_start := sample_time 590, s_end := sample_time 600\<rparr>)
       [sample_workout ''HKWorkoutActivityTypeCycling'']
   \<and> \<not> is_step_during_workout sample_step_b [sample_workout ''HKWorkoutActivityTypeCycling'']"
  using overlap_test_inclusive [of "sample_step_a\<lparr>s_start := sample_time 590, s_end := sample_time 600\<rparr>"
      "sample_workout ''HKWorkoutActivityTypeCycling''" "[]"]
    overlap_test_inclusive [of sample_step_b "sample_workout ''HKWorkoutActivityTypeCycling''" "[]"]
  by (simp add: sample_simps)

text \<open>
  C9. Every step record is put in at most one of the three classes: the classes are
  pairwise disjoint and together hold a record no more often than the list does. When
  no step value is negative, the cycling, skating and walking steps together are at
  most the total, and the corrected steps are at least the walking steps.
\<close>

theorem classes_disjoint_and_bounded:
  "set (steps_during_cycling (classify_steps workout_times step_records))
     \<inter> set (steps_during_skating (classify_steps workout_times step_records)) = {}
   \<and> set (steps_during_cycling (classify_steps workout_times step_records))
     \<inter> set (steps_during_walking (classify_steps workout_times step_records)) = {}
   \<and> set (steps_during_skating (classify_steps workout_times step_records))
     \<inter> set (steps_during_walking (classify_steps workout_times step_records)) = {}
   \<and> count_list (steps_during_cycling (classify_steps workout_times step_records)) step
     + count_list (steps_during_skating (classify_steps workout_times step_records)) step
     + count_list (steps_during_walking (classify_steps workout_times step_records)) step
     \<le> count_list step_records step
   \<and> ((\<forall>s \<in> set step_records. 0 \<le> s_value s) \<longrightarrow>
        cycling_steps (correct_steps workout_times step_records)
          + skating_steps (correct_steps workout_times step_records)
          + walking_steps (correct_steps workout_times step_records)
          \<le> total_steps (correct_steps workout_times step_records)
        \<and> walking_steps (correct_steps workout_times step_records)
          \<le> corrected_steps (correct_steps workout_times step_records))"
proof -
  have disj: "set (steps_during_cycling (classify_steps workout_times step_records))
     \<inter> set (steps_during_skating (classify_steps workout_times step_records)) = {}
   \<and> set (steps_during_cycling (classify_steps workout_times step_records))
     \<inter> set (steps_during_walking (classify_steps workout_times step_records)) = {}
   \<and> set (steps_during_skating (classify_steps workout_times step_records))
     \<inter> set (steps_during_walking (classify_steps workout_times step_records)) = {}"
    by (auto simp: classify_steps_filter)
  have cnt: "count_list (steps_during_cycling (classify_steps workout_times step_records)) step
     + count_list (steps_during_skating (classify_steps workout_times step_records)) step
     + count_list (steps_during_walking (classify_steps workout_times step_records)) step
     \<le> count_list step_records step"
    by (simp add: classify_steps_filter count_list_filter)
  have sums: "cycling_steps (correct_steps workout_times step_records)
          + skating_steps (correct_steps workout_times step_records)
          + walking_steps (correct_steps workout_times step_records)
          \<le> total_steps (correct_steps workout_times step_records)
        \<and> walking_steps (correct_steps workout_times step_records)
          \<le> corrected_steps (correct_steps workout_times step_records)"
    if nn: "\<forall>s \<in> set step_records. 0 \<le> s_value s"
    using sum_three_classes [OF nn,
        of "\<lambda>s. is_step_during_workout s (cycling_of workout_times)"
           "\<lambda>s. is_step_during_workout s (skating_of workout_times)"
           "\<lambda>s. is_step_during_workout s (walking_of workout_times)"]
    by (simp add: correct_steps_def Let_def py_sum_sum_list classify_steps_filter)
  show ?thesis using disj cnt sums by blast
qed

theorem classes_disjoint_and_bounded_witness:
  "0 \<le> s_value sample_step_a \<and> 0 \<le> s_value sample_step_b
   \<and> walking_steps (correct_steps
        [sample_workout ''HKWorkoutActivityTypeWalking''] [sample_step_a, sample_step_b]) = 500
   \<and> corrected_steps (correct_steps
        [sample_workout ''HKWorkoutActivityTypeWalking''] [sample_step_a, sample_step_b]) = 700
   \<and> steps_during_cycling (classify_steps
        [sample_workout ''HKWorkoutActivityTypeWalking''] [sample_step_a, sample_step_b]) = []"
  using classes_disjoint_and_bounded [of "[sample_workout ''HKWorkoutActivityTypeWalking'']"
      "[sample_step_a, sample_step_b]" sample_step_a]
  by (simp add: sample_simps correct_steps_def py_sum_def)

section \<open>Properties of the route statistics\<close>

subsection \<open>Elevation gain\<close>

lemma elevation_step_pair_gain:
  "elevation_step points g i = g + spec_pair_gain (points ! i) (points ! (i + 1))"
  by (simp add: elevation_step_def spec_pair_gain_def Let_def split: option.splits)

lemma elevation_foldl:
  "foldl (elevation_step points) g [0 ..< n]
     = g + (\<Sum>i < n. spec_pair_gain (points ! i) (points ! (i + 1)))"
  by (induction n) (simp_all add: elevation_step_pair_gain)

lemma spec_pair_gain_nonneg: "0 \<le> spec_pair_gain p q"
  by (simp add: spec_pair_gain_def split: option.splits)

lemma elevation_gain_sum:
  "calculate_elevation_gain points
     = (\<Sum>i < length points - 1. spec_pair_gain (points ! i) (points ! (i + 1)))"
proof (cases "length points < 2")
  case True
  then have "length points - 1 = 0" by simp
  with True show ?thesis by (simp add: calculate_elevation_gain_def)
next
  case False
  then show ?thesis by (simp add: calculate_elevation_gain_def elevation_foldl)
qed

text \<open>
  C5. The elevation gain of a sequence of track points is the sum, over the pairs of
  consecutive points, of \<open>max(0, ele2 - ele1)\<close> where both elevations are present and of
  0 where one is missing. So it is never negative, and it is 0 when no pair of
  consecutive elevations rises.
\<close>

theorem elevation_gain_sum_of_rises:
  "calculate_elevation_gain points
     = (\<Sum>i < length points - 1. spec_pair_gain (points ! i) (points ! (i + 1)))
   \<and> 0 \<le> calculate_elevation_gain points
   \<and> ((\<forall>i ele1 ele2. i + 1 < length points \<and> tp_ele (points ! i) = Some ele1
            \<and> tp_ele (points ! (i + 1)) = Some ele2 \<longrightarrow> ele2 \<le> ele1)
        \<longrightarrow> calculate_elevation_gain points = 0)"
proof -
  have nn: "0 \<le> calculate_elevation_gain points"
    unfolding elevation_gain_sum by (rule sum_nonneg) (simp add: spec_pair_gain_nonneg)
  have zero: "calculate_elevation_gain points = 0"
    if h: "\<forall>i ele1 ele2. i + 1 < length points \<and> tp_ele (points ! i) = Some ele1
            \<and> tp_ele (points ! (i + 1)) = Some ele2 \<longrightarrow> ele2 \<le> ele1"
  proof -
    have "spec_pair_gain (points ! i) (points ! (i + 1)) = 0" if "i < length points - 1" for i
    proof -
      from that have "i + 1 < length points" by simp
      with h show ?thesis by (auto simp: spec_pair_gain_def split: option.splits)
    qed
    then show ?thesis unfolding elevation_gain_sum by simp
  qed
  show ?thesis using elevation_gain_sum nn zero by blast
qed

theorem elevation_gain_sum_of_rises_witness:
  "calculate_elevation_gain [sample_point (Some 100) None, sample_point (Some 90) None,
      sample_point None None, sample_point (Some 95) None, sample_point (Some 80) None] = 0
   \<and> calculate_elevation_gain [sample_point (Some 100) None, sample_point (Some 110) None,
      sample_point None None, sample_point (Some 105) None, sample_point (Some 120) None] = 25"
proof -
  have h: "\<forall>i ele1 ele2.
      i + 1 < length [sample_point (Some 100) None, sample_point (Some 90) None,
        sample_point None None, sample_point (Some 95) None, sample_point (Some 80) None]
      \<and> tp_ele ([sample_point (Some 100) None, sample_point (Some 90) None,
          sample_point None None, sample_point (Some 95) None,
          sample_point (Some 80) None] ! i) = Some ele1
      \<and> tp_ele ([sample_point (Some 100) None, sample_point (Some 90) None,
          sample_point None None, sample_point (Some 95) None,
          sample_point (Some 80) None] ! (i + 1)) = Some ele2
      \<longrightarrow> ele2 \<le> ele1"
    by (auto simp: sample_point_def less_Suc_eq nth_Cons')
  show ?thesis
    using elevation_gain_sum_of_rises [of "[sample_point (Some 100) None,
        sample_point (Some 90) None, sample_point None None, sample_point (Some 95) None,
        sample_point (Some 80) None]"] h
      elevation_gain_sum_of_rises [of "[sample_point (Some 100) None,
        sample_point (Some 110) None, sample_point None None, sample_point (Some 105) None,
        sample_point (Some 120) None]"]
    by (simp add: spec_pair_gain_def sample_point_def lessThan_Suc numeral_eq_Suc)
qed

subsection \<open>Duration\<close>

lemma present_Some_iff: "present v = Some t \<longleftrightarrow> v = Some t \<and> t \<noteq> []"
  by (cases v) auto

lemma present_None_iff: "present v = None \<longleftrightarrow> \<not> truthy v"
  by (cases v) auto

lemma spec_timestamps_Nil: "spec_timestamps [] = []"
  by (simp add: spec_timestamps_def)

lemma spec_timestamps_Cons:
  "spec_timestamps (p # ps) =
     (case present (tp_time p) of None \<Rightarrow> spec_timestamps ps | Some t \<Rightarrow> t # spec_timestamps ps)"
  by (simp add: spec_timestamps_def split: option.splits)

text \<open>The loop keeps the first and the last timestamp it meets.\<close>

lemma scan_time_foldl:
  "foldl scan_time (a, b) points =
     (case spec_timestamps points of
        [] \<Rightarrow> (a, b)
      | t # ts \<Rightarrow> ((if a = None then Some t else a), Some (last (t # ts))))"
proof (induction points arbitrary: a b)
  case Nil
  then show ?case by (simp add: spec_timestamps_Nil)
next
  case (Cons p ps)
  show ?case
  proof (cases "present (tp_time p)")
    case None
    then have "\<not> truthy (tp_time p)" by (simp add: present_None_iff)
    then have "scan_time (a, b) p = (a, b)" by (simp add: scan_time_def)
    with None Cons show ?thesis by (simp add: spec_timestamps_Cons)
  next
    case (Some t)
    then have eq: "tp_time p = Some t" and ne: "t \<noteq> []" by (simp_all add: present_Some_iff)
    then have step: "scan_time (a, b) p = ((if a = None then Some t else a), Some t)"
      by (simp add: scan_time_def)
    show ?thesis
    proof (cases "spec_timestamps ps")
      case Nil
      with Some step Cons [of "if a = None then Some t else a" "Some t"] show ?thesis
        by (simp add: spec_timestamps_Cons)
    next
      case (Cons u us)
      with Some step Cons.IH [of "if a = None then Some t else a" "Some t"] show ?thesis
        by (simp add: spec_timestamps_Cons)
    qed
  qed
qed

lemma spec_timestamps_nonempty: "t \<in> set (spec_timestamps points) \<Longrightarrow> t \<noteq> []"
  by (induction points) (auto simp: spec_timestamps_Nil spec_timestamps_Cons present_Some_iff
      split: option.splits)

text \<open>
  What \<open>_calculate_duration\<close> returns, for every sequence of points: 0 for fewer than
  two points, for no timestamp and for a first or last timestamp that does not parse;
  otherwise the difference of the last and the first timestamp in minutes, or the
  \<open>TypeError\<close> of the subtraction when one of the two carries a UTC offset and the
  other does not.
\<close>

lemma calculate_duration_cases:
  "calculate_duration py points =
     (if length points < 2 then Inr 0
      else case spec_timestamps points of
        [] \<Rightarrow> Inr 0
      | t # ts \<Rightarrow>
          (case fromisoformat py (replace_Z t) of
             None \<Rightarrow> Inr 0
           | Some start_dt \<Rightarrow>
               (case fromisoformat py (replace_Z (last (t # ts))) of
                  None \<Rightarrow> Inr 0
                | Some end_dt \<Rightarrow>
                    (case dt_sub end_dt start_dt of
                       Inl err \<Rightarrow> Inl err
                     | Inr td \<Rightarrow> Inr (total_seconds td / 60)))))"
proof (cases "spec_timestamps points")
  case Nil
  then show ?thesis by (simp add: calculate_duration_def scan_time_foldl)
next
  case (Cons t ts)
  then have "t \<in> set (spec_timestamps points)" "last (t # ts) \<in> set (spec_timestamps points)"
    using last_in_set [of "t # ts"] by simp_all
  then have "t \<noteq> []" "last (t # ts) \<noteq> []" by (blast dest: spec_timestamps_nonempty)+
  with Cons show ?thesis
    by (simp add: calculate_duration_def scan_time_foldl del: last.simps)
qed

lemma dt_sub_same_kind:
  "iso_offset a = None \<longleftrightarrow> iso_offset b = None \<Longrightarrow> \<exists>td. dt_sub a b = Inr td"
  by (cases "iso_offset a"; cases "iso_offset b") (simp_all add: dt_sub_def)

lemma calculate_duration_sample:
  "calculate_duration sample_python
     [sample_point None (Some ''2025-05-10T10:00:00Z''),
      sample_point None (Some ''2025-05-10T10:30:00Z'')] = Inr 30"
  by (simp add: calculate_duration_def scan_time_def sample_point_def sample_python_def
      replace_Z_def dt_sub_def total_seconds_def)

text \<open>
  C6. The duration is the difference in minutes between the first and the last point
  that carries a timestamp, and 0 for fewer than two such points or a timestamp that
  does not parse. The code does not return a duration for every sequence: when the first
  timestamp carries a UTC offset (here the suffix \<open>Z\<close>) and the last one does not,
  both parse, the subtraction raises \<open>TypeError\<close>, and \<open>_calculate_duration\<close> catches
  \<open>ValueError\<close> only.
\<close>

theorem duration_mixed_offsets_raises:
  "calculate_duration sample_python
     [sample_point None (Some ''2025-05-10T10:00:00Z''),
      sample_point None (Some ''2025-05-10T10:30:00'')] = Inl TypeError"
  by (simp add: calculate_duration_def scan_time_def sample_point_def sample_python_def
      replace_Z_def dt_sub_def)

section \<open>Properties of the route files\<close>

text \<open>\<open>split\<close> never returns the empty list, so its first item is always there.\<close>

lemma split_acc_not_Nil: "split_acc sep cur s \<noteq> []"
  by (induction s arbitrary: cur) simp_all

lemma split_not_Nil: "split sep s \<noteq> []"
  by (simp add: split_def split_acc_not_Nil)

lemma analyze_single_gpx_effect:
  "analyze_single_gpx py fs self file_path filename route_date = (r, self') \<Longrightarrow>
     opened self' = opened self @ [file_path] \<and> routes self' = routes self
     \<and> total_count self' = total_count self \<and> processed_count self' = processed_count self
     \<and> set (printed self) \<subseteq> set (printed self')
     \<and> (\<forall>g e. CouldNotParseDate g e \<in> set (printed self')
          \<longrightarrow> CouldNotParseDate g e \<in> set (printed self))
     \<and> (\<forall>x. r = Some x \<longrightarrow> ri_filename x = filename \<and> ri_date x = strftime_ymd py route_date)"
  by (auto simp: analyze_single_gpx_def analyze_single_gpx_body_def Let_def
      split: sum.splits option.splits list.splits)

lemma analyze_file_rejected:
  "spec_file_date py f = Inl e \<Longrightarrow>
     analyze_file py fs dir self f =
       self\<lparr>total_count := total_count self + 1,
         printed := printed self @ [CouldNotParseDate f e]\<rparr>"
  by (auto simp: analyze_file_def spec_file_date_def Let_def split: sum.splits option.splits)

lemma analyze_file_before:
  "spec_file_date py f = Inr d \<Longrightarrow> d < start_date \<Longrightarrow>
     analyze_file py fs dir self f = self\<lparr>total_count := total_count self + 1\<rparr>"
  by (auto simp: analyze_file_def spec_file_date_def Let_def split: sum.splits option.splits)

lemma analyze_file_accepted:
  assumes "spec_file_date py f = Inr d" "start_date \<le> d"
  shows "opened (analyze_file py fs dir self f) = opened self @ [path_join dir f]
     \<and> total_count (analyze_file py fs dir self f) = total_count self + 1
     \<and> set (printed self) \<subseteq> set (printed (analyze_file py fs dir self f))
     \<and> (\<forall>g e. CouldNotParseDate g e \<in> set (printed (analyze_file py fs dir self f))
          \<longrightarrow> CouldNotParseDate g e \<in> set (printed self))
     \<and> (\<forall>r \<in> set (routes (analyze_file py fs dir self f)).
          r \<in> set (routes self) \<or> (ri_filename r = f \<and> ri_date r = strftime_ymd py d))"
proof -
  obtain r self2 where a: "analyze_single_gpx py fs (self\<lparr>total_count := total_count self + 1\<rparr>)
      (path_join dir f) f d = (r, self2)"
    by (cases "analyze_single_gpx py fs (self\<lparr>total_count := total_count self + 1\<rparr>)
      (path_join dir f) f d") blast
  have af: "analyze_file py fs dir self f =
      (case r of None \<Rightarrow> self2
       | Some route_info \<Rightarrow> self2\<lparr>routes := routes self2 @ [route_info],
           processed_count := processed_count self2 + 1\<rparr>)"
    using assms a
    by (auto simp: analyze_file_def spec_file_date_def Let_def split: sum.splits option.splits)
  from analyze_single_gpx_effect [OF a] show ?thesis
    unfolding af by (cases r) auto
qed

text \<open>One turn of the loop, whatever the file name.\<close>

lemma analyze_file_cases:
  "opened (analyze_file py fs dir self f) =
     opened self @ (if spec_accepted py f then [path_join dir f] else [])
   \<and> total_count (analyze_file py fs dir self f) = total_count self + 1
   \<and> set (printed self) \<subseteq> set (printed (analyze_file py fs dir self f))
   \<and> (\<forall>e. spec_file_date py f = Inl e \<longrightarrow>
        CouldNotParseDate f e \<in> set (printed (analyze_file py fs dir self f)))
   \<and> (\<forall>g e. CouldNotParseDate g e \<in> set (printed (analyze_file py fs dir self f))
        \<longrightarrow> CouldNotParseDate g e \<in> set (printed self)
          \<or> (g = f \<and> spec_file_date py f = Inl e))
   \<and> (\<forall>r \<in> set (routes (analyze_file py fs dir self f)).
        r \<in> set (routes self) \<or>
        (\<exists>d. spec_file_date py f = Inr d \<and> start_date \<le> d \<and> ri_filename r = f
           \<and> ri_date r = strftime_ymd py d))"
proof (cases "spec_file_date py f")
  case (Inl e)
  then show ?thesis by (auto simp: analyze_file_rejected spec_accepted_def)
next
  case (Inr d)
  show ?thesis
  proof (cases "start_date \<le> d")
    case True
    from analyze_file_accepted [OF Inr True, of fs dir self] Inr True show ?thesis
      by (auto simp: spec_accepted_def)
  next
    case False
    then have "d < start_date" by simp
    from analyze_file_before [OF Inr this] Inr False show ?thesis
      by (simp add: spec_accepted_def)
  qed
qed

lemma files_loop:
  "opened (foldl (analyze_file py fs dir) self files) =
     opened self @ map (path_join dir) (filter (spec_accepted py) files)
   \<and> total_count (foldl (analyze_file py fs dir) self files) = total_count self + length files
   \<and> set (printed self) \<subseteq> set (printed (foldl (analyze_file py fs dir) self files))
   \<and> (\<forall>f \<in> set files. \<forall>e. spec_file_date py f = Inl e \<longrightarrow>
        CouldNotParseDate f e \<in> set (printed (foldl (analyze_file py fs dir) self files)))
   \<and> (\<forall>g e. CouldNotParseDate g e \<in> set (printed (foldl (analyze_file py fs dir) self files))
        \<longrightarrow> CouldNotParseDate g e \<in> set (printed self)
          \<or> (g \<in> set files \<and> spec_file_date py g = Inl e))
   \<and> (\<forall>r \<in> set (routes (foldl (analyze_file py fs dir) self files)).
        r \<in> set (routes self) \<or>
        (\<exists>f \<in> set files. \<exists>d. spec_file_date py f = Inr d \<and> start_date \<le> d
           \<and> ri_filename r = f \<and> ri_date r = strftime_ymd py d))"
proof (induction files arbitrary: self)
  case Nil
  then show ?case by simp
next
  case (Cons f files)
  note step = analyze_file_cases [of py fs dir self f]
  note ih = Cons.IH [of "analyze_file py fs dir self f"]
  have o: "opened (foldl (analyze_file py fs dir) self (f # files)) =
     opened self @ map (path_join dir) (filter (spec_accepted py) (f # files))"
    using step ih by simp
  have t: "total_count (foldl (analyze_file py fs dir) self (f # files))
     = total_count self + length (f # files)"
    using step ih by simp
  have p: "set (printed self) \<subseteq> set (printed (foldl (analyze_file py fs dir) self (f # files)))"
    using step ih by auto
  have c: "\<forall>g \<in> set (f # files). \<forall>e. spec_file_date py g = Inl e \<longrightarrow>
        CouldNotParseDate g e \<in> set (printed (foldl (analyze_file py fs dir) self (f # files)))"
    using step ih by auto
  have q: "\<forall>g e. CouldNotParseDate g e
          \<in> set (printed (foldl (analyze_file py fs dir) self (f # files)))
        \<longrightarrow> CouldNotParseDate g e \<in> set (printed self)
          \<or> (g \<in> set (f # files) \<and> spec_file_date py g = Inl e)"
  proof (intro allI impI)
    fix g e
    assume "CouldNotParseDate g e \<in> set (printed (foldl (analyze_file py fs dir) self (f # files)))"
    then have "CouldNotParseDate g e
        \<in> set (printed (foldl (analyze_file py fs dir) (analyze_file py fs dir self f) files))"
      by simp
    with ih have "CouldNotParseDate g e \<in> set (printed (analyze_file py fs dir self f))
        \<or> (g \<in> set files \<and> spec_file_date py g = Inl e)" by blast
    with step show "CouldNotParseDate g e \<in> set (printed self)
        \<or> (g \<in> set (f # files) \<and> spec_file_date py g = Inl e)"
      by auto
  qed
  have r: "\<forall>r \<in> set (routes (foldl (analyze_file py fs dir) self (f # files))).
        r \<in> set (routes self) \<or>
        (\<exists>g \<in> set (f # files). \<exists>d. spec_file_date py g = Inr d \<and> start_date \<le> d
           \<and> ri_filename r = g \<and> ri_date r = strftime_ymd py d)"
  proof
    fix x assume "x \<in> set (routes (foldl (analyze_file py fs dir) self (f # files)))"
    then have "x \<in> set (routes (foldl (analyze_file py fs dir) (analyze_file py fs dir self f) files))"
      by simp
    with ih have "x \<in> set (routes (analyze_file py fs dir self f)) \<or>
        (\<exists>g \<in> set files. \<exists>d. spec_file_date py g = Inr d \<and> start_date \<le> d
           \<and> ri_filename x = g \<and> ri_date x = strftime_ymd py d)" by blast
    with step show "x \<in> set (routes self) \<or>
        (\<exists>g \<in> set (f # files). \<exists>d. spec_file_date py g = Inr d \<and> start_date \<le> d
           \<and> ri_filename x = g \<and> ri_date x = strftime_ymd py d)"
      by auto
  qed
  show ?case using o t p c q r by blast
qed

lemma path_join_inj:
  "CHR ''/'' \<notin> set f \<Longrightarrow> CHR ''/'' \<notin> set g \<Longrightarrow> path_join dir f = path_join dir g \<Longrightarrow> f = g"
  by (cases f; cases g) (auto simp: path_join_def split: if_splits)

text \<open>
  C8, as the code has it. In an existing directory, with \<open>files\<close> the sorted names
  that end in \<open>.gpx\<close>: the date of a file is read from the second token between
  underscores of its name; the files given to the XML parser are exactly those whose date
  is not before the cutoff, in order, so a file with an earlier date or with no readable
  date is not opened (names from a directory listing hold no slash); for every file with
  no readable date a diagnostic naming it is printed, and for no other file; every one of
  the files is visited, whatever happened to the files before it; and every route added
  bears the name and the date of a file that was taken. A name that does not end in
  \<open>.gpx\<close> is not among \<open>files\<close>: it is neither opened nor reported.
\<close>

theorem route_files_filtered_by_date:
  assumes "fs_exists fs gpx_dir"
    and "files = sort (filter (\<lambda>f. endswith f ''.gpx'') (fs_listdir fs gpx_dir))"
    and "result = analyze_gpx_files py fs gpx_dir self"
  shows "opened result = opened self @ map (path_join gpx_dir) (filter (spec_accepted py) files)
     \<and> total_count result = length files
     \<and> (\<forall>f \<in> set files. \<forall>e. spec_file_date py f = Inl e \<longrightarrow>
          CouldNotParseDate f e \<in> set (printed result))
     \<and> (\<forall>g e. CouldNotParseDate g e \<in> set (printed result)
          \<longrightarrow> CouldNotParseDate g e \<in> set (printed self)
            \<or> (g \<in> set files \<and> spec_file_date py g = Inl e))
     \<and> (\<forall>r \<in> set (routes result). r \<in> set (routes self) \<or>
          (\<exists>f \<in> set files. \<exists>d. spec_file_date py f = Inr d \<and> start_date \<le> d
             \<and> ri_filename r = f \<and> ri_date r = strftime_ymd py d))
     \<and> ((\<forall>f \<in> set files. CHR ''/'' \<notin> set f) \<longrightarrow>
          (\<forall>f \<in> set files. \<not> spec_accepted py f \<longrightarrow>
             path_join gpx_dir f \<notin> set (opened self) \<longrightarrow>
             path_join gpx_dir f \<notin> set (opened result)))"
proof -
  define self0 where "self0 = self\<lparr>printed := printed self @
    [AnalyzingFrom (strftime_ymd py start_date)], processed_count := 0, total_count := 0\<rparr>"
  define self1 where "self1 = foldl (analyze_file py fs gpx_dir) self0 files"
  have res: "result = self1\<lparr>printed := printed self1 @
      [Processed (processed_count self1) (total_count self1)]\<rparr>"
    using assms by (simp add: analyze_gpx_files_def Let_def self1_def self0_def)
  note loop = files_loop [of py fs gpx_dir self0 files, folded self1_def]
  have o: "opened result = opened self @ map (path_join gpx_dir) (filter (spec_accepted py) files)"
    using loop by (simp add: res self0_def)
  have t: "total_count result = length files"
    using loop by (simp add: res self0_def)
  have c: "\<forall>f \<in> set files. \<forall>e. spec_file_date py f = Inl e \<longrightarrow>
          CouldNotParseDate f e \<in> set (printed result)"
    using loop by (simp add: res)
  have q: "\<forall>g e. CouldNotParseDate g e \<in> set (printed result)
          \<longrightarrow> CouldNotParseDate g e \<in> set (printed self)
            \<or> (g \<in> set files \<and> spec_file_date py g = Inl e)"
    using loop by (auto simp: res self0_def)
  have r: "\<forall>r \<in> set (routes result). r \<in> set (routes self) \<or>
          (\<exists>f \<in> set files. \<exists>d. spec_file_date py f = Inr d \<and> start_date \<le> d
             \<and> ri_filename r = f \<and> ri_date r = strftime_ymd py d)"
    using loop by (simp add: res self0_def)
  have n: "path_join gpx_dir f \<notin> set (opened result)"
    if sl: "\<forall>f \<in> set files. CHR ''/'' \<notin> set f" and f: "f \<in> set files"
      and na: "\<not> spec_accepted py f" and no: "path_join gpx_dir f \<notin> set (opened self)" for f
  proof
    assume "path_join gpx_dir f \<in> set (opened result)"
    with o no obtain g where g: "g \<in> set files" "spec_accepted py g"
      "path_join gpx_dir f = path_join gpx_dir g" by auto
    with sl f have "f = g" by (blast intro: path_join_inj)
    with g na show False by simp
  qed
  show ?thesis using o t c q r n by blast
qed

theorem route_files_filtered_by_date_witness:
  "opened (analyze_gpx_files sample_python sample_fs ''workout-routes'' init_analyzer)
     = [''workout-routes/route_2025-05-10_5.09pm.gpx'']
   \<and> total_count (analyze_gpx_files sample_python sample_fs ''workout-routes'' init_analyzer) = 4
   \<and> CouldNotParseDate ''badname.gpx'' IndexError
       \<in> set (printed (analyze_gpx_files sample_python sample_fs ''workout-routes'' init_analyzer))
   \<and> CouldNotParseDate ''route_soon_1.gpx'' ValueError
       \<in> set (printed (analyze_gpx_files sample_python sample_fs ''workout-routes'' init_analyzer))
   \<and> ''workout-routes/route_2025-04-30_8.00am.gpx''
       \<notin> set (opened (analyze_gpx_files sample_python sample_fs ''workout-routes'' init_analyzer))
   \<and> CouldNotParseDate ''route_notes.txt'' ValueError
       \<notin> set (printed (analyze_gpx_files sample_python sample_fs ''workout-routes'' init_analyzer))"
proof -
  have e: "fs_exists sample_fs ''workout-routes''" by (simp add: sample_fs_def)
  have s: "sort (filter (\<lambda>f. endswith f ''.gpx'') (fs_listdir sample_fs ''workout-routes''))
    = [''badname.gpx'', ''route_2025-04-30_8.00am.gpx'', ''route_2025-05-10_5.09pm.gpx'',
       ''route_soon_1.gpx'']"
    by (simp add: sample_fs_def endswith_def)
  have d: "spec_file_date sample_python ''badname.gpx'' = Inl IndexError"
    "spec_file_date sample_python ''route_2025-04-30_8.00am.gpx'' = Inr (start_date - 86400000000)"
    "spec_file_date sample_python ''route_2025-05-10_5.09pm.gpx''
       = Inr (start_date + 9 * 86400000000)"
    "spec_file_date sample_python ''route_soon_1.gpx'' = Inl ValueError"
    by (simp_all add: spec_file_date_def split_def item_def sample_python_def)
  show ?thesis
    using route_files_filtered_by_date [OF e s [symmetric] refl, of sample_python init_analyzer]
    by (auto simp: d spec_accepted_def init_analyzer_def path_join_def)
qed

text \<open>
  C8, as the claim states it, fails: the directory holds \<open>route_notes.txt\<close>, whose
  second token between underscores is no date, and the run prints no diagnostic for it,
  because only the names that end in \<open>.gpx\<close> enter the loop (4 of the 5 names).
\<close>

theorem other_files_skipped_silently:
  "''route_notes.txt'' \<in> set (fs_listdir sample_fs ''workout-routes'')
   \<and> spec_file_date sample_python ''route_notes.txt'' = Inl ValueError
   \<and> printed (analyze_gpx_files sample_python sample_fs ''workout-routes'' init_analyzer)
       = [AnalyzingFrom ''2025-05-01'', CouldNotParseDate ''badname.gpx'' IndexError,
          CouldNotParseDate ''route_soon_1.gpx'' ValueError, Processed 1 4]"
  by (simp add: analyze_gpx_files_def sample_fs_def endswith_def Let_def analyze_file_def
      split_def item_def sample_python_def init_analyzer_def path_join_def
      analyze_single_gpx_def analyze_single_gpx_body_def sample_gpx_def sample_trkpt_def
      findall_def gpx_ns_def point_of_def float_attr_def get_def ele_of_def find_child_def
      time_of_def calculate_distance_def segment_distance_def radians_def math_sqrt_def
      atan2_def calculate_duration_def scan_time_def replace_Z_def dt_sub_def total_seconds_def
      calculate_elevation_gain_def elevation_step_def start_date_def spec_file_date_def)

text \<open>The whole run on the sample directory.\<close>

lemma analyze_gpx_files_sample:
  "routes (analyze_gpx_files sample_python sample_fs ''workout-routes'' init_analyzer)
     = [\<lparr>ri_filename = ''route_2025-05-10_5.09pm.gpx'', ri_date = ''2025-05-10'',
         ri_datetime = ''2025-05-10T00:00:00'', ri_track_points = 2, ri_distance_km = 0,
         ri_elevation_gain_m = 0, ri_duration_minutes = 30,
         ri_start_point = (52.1, 21), ri_end_point = (52.1, 21)\<rparr>]"
  by (simp add: analyze_gpx_files_def sample_fs_def endswith_def Let_def analyze_file_def
      split_def item_def sample_python_def init_analyzer_def path_join_def
      analyze_single_gpx_def analyze_single_gpx_body_def sample_gpx_def sample_trkpt_def
      findall_def gpx_ns_def point_of_def float_attr_def get_def ele_of_def find_child_def
      time_of_def calculate_distance_def segment_distance_def radians_def math_sqrt_def
      atan2_def calculate_duration_def scan_time_def replace_Z_def dt_sub_def total_seconds_def
      calculate_elevation_gain_def elevation_step_def start_date_def)

section \<open>Properties of the reporters\<close>

lemma add_duration_sum:
  "foldl (add_duration py) t ws =
     t + sum_list (map (\<lambda>w. case present (wi_duration w) of None \<Rightarrow> 0
        | Some d \<Rightarrow> (case float_of_str py d of None \<Rightarrow> 0 | Some x \<Rightarrow> x)) ws)"
  by (induction ws arbitrary: t) (simp_all add: add_duration_def split: option.splits)

text \<open>
  C10. For a list of workouts that is not empty, the reported average duration is the
  sum of the durations that are present and parse as a number, divided by the number of
  all workouts: a workout whose duration is missing or does not parse adds nothing to
  the sum but counts in the divisor.
\<close>

theorem average_duration_counts_all_workouts:
  assumes "workouts self \<noteq> []"
  shows "\<exists>r. analyze_workouts py self = Inr (Report r)
     \<and> wo_average_duration r
        = sum_list (map (\<lambda>w. case present (wi_duration w) of None \<Rightarrow> 0
            | Some d \<Rightarrow> (case float_of_str py d of None \<Rightarrow> 0 | Some x \<Rightarrow> x)) (workouts self))
          / real (length (workouts self))
     \<and> wo_total_workouts r = length (workouts self)"
  using assms by (simp add: analyze_workouts_def Let_def py_div_def add_duration_sum)

theorem average_duration_counts_all_workouts_witness:
  "analyze_workouts sample_python (init_parser\<lparr>workouts :=
      [sample_workout_info (Some ''30.5''), sample_workout_info None,
       sample_workout_info (Some ''about an hour'')]\<rparr>)
   = Inr (Report \<lparr>wo_total_workouts = 3,
       wo_workout_types = [(''HKWorkoutActivityTypeCycling'', 3)],
       wo_total_duration_minutes = 30.5, wo_average_duration = 30.5 / 3,
       wo_recent_workouts = [sample_workout_info (Some ''30.5''), sample_workout_info None,
         sample_workout_info (Some ''about an hour'')]\<rparr>)"
  using average_duration_counts_all_workouts [of "init_parser\<lparr>workouts :=
      [sample_workout_info (Some ''30.5''), sample_workout_info None,
       sample_workout_info (Some ''about an hour'')]\<rparr>" sample_python]
  by (simp add: analyze_workouts_def init_parser_def sample_workout_info_def sample_python_def
      add_duration_def count_up_def py_div_def last_n_def Let_def)

subsection \<open>Empty collections\<close>

lemma py_min_Inr: "xs \<noteq> [] \<Longrightarrow> \<exists>m. py_min xs = Inr m"
  by (cases xs) simp_all

lemma py_max_Inr: "xs \<noteq> [] \<Longrightarrow> \<exists>m. py_max xs = Inr m"
  by (cases xs) simp_all

lemma update_not_Nil: "AList.update k v al \<noteq> []"
  by (cases al) auto

lemma add_daily_not_Nil: "add_daily d s \<noteq> []"
  by (simp add: add_daily_def Let_def update_not_Nil)

lemma foldl_add_daily_not_Nil: "d \<noteq> [] \<Longrightarrow> foldl add_daily d steps \<noteq> []"
  by (induction steps arbitrary: d) (simp_all add: add_daily_not_Nil)

lemma daily_steps_not_Nil: "steps \<noteq> [] \<Longrightarrow> foldl add_daily [] steps \<noteq> []"
  by (cases steps) (simp_all add: foldl_add_daily_not_Nil add_daily_not_Nil)

lemma analyze_heart_rate_Inr: "\<exists>r. analyze_heart_rate self = Inr r"
proof (cases "heart_rate_data self = []")
  case True
  then show ?thesis by (simp add: analyze_heart_rate_def)
next
  case False
  then have ne: "map hr_value (heart_rate_data self) \<noteq> []" by simp
  from py_min_Inr [OF ne] py_max_Inr [OF ne] False show ?thesis
    by (auto simp: analyze_heart_rate_def Let_def py_div_def)
qed

text \<open>
  The step reporter never divides by zero, and the one thing it can raise is the
  \<open>OverflowError\<close> of the division of the total by the number of days, when the average
  is beyond the largest \<open>float\<close>.
\<close>

lemma analyze_steps_cases:
  "analyze_steps self = Inl OverflowError \<or> (\<exists>r. analyze_steps self = Inr r)"
proof (cases "step_data self = []")
  case True
  then show ?thesis by (simp add: analyze_steps_def)
next
  case False
  then have ne: "map snd (foldl add_daily [] (step_data self)) \<noteq> []"
    by (simp add: daily_steps_not_Nil)
  from py_min_Inr [OF ne] py_max_Inr [OF ne] ne False show ?thesis
    by (auto simp: analyze_steps_def Let_def py_int_div_def)
qed

lemma analyze_steps_overflow:
  "analyze_steps (init_parser\<lparr>step_data :=
      [\<lparr>st_date = ''2025-05-10 10:05:00 +0200'', st_value = 10 ^ 309\<rparr>]\<rparr>)
   = Inl OverflowError"
proof -
  have "(2::real) ^ 1024 - 2 ^ 970 \<le> 10 ^ 309" by simp
  then show ?thesis
    by (simp add: analyze_steps_def init_parser_def add_daily_def date_token_def split_def
        py_sum_def py_int_div_def float_overflow_bound_def Let_def)
qed

lemma energy_block_Inr:
  "\<exists>b. energy_block entries = Inr b \<and> (b = None \<longleftrightarrow> entries = [])"
proof (cases "entries = []")
  case True
  then show ?thesis by (simp add: energy_block_def)
next
  case False
  then have ne: "map en_value entries \<noteq> []" by simp
  from py_max_Inr [OF ne] False show ?thesis
    by (auto simp: energy_block_def Let_def py_div_def)
qed

lemma analyze_energy_Report:
  assumes "energy_data self \<noteq> []"
  shows "\<exists>a b. analyze_energy self = Inr (Report \<lparr>active_energy = a, basal_energy = b\<rparr>)
     \<and> (a = None \<longleftrightarrow> filter (\<lambda>e. str_in ''ActiveEnergy'' (en_type e)) (energy_data self) = [])
     \<and> (b = None \<longleftrightarrow> filter (\<lambda>e. str_in ''BasalEnergy'' (en_type e)) (energy_data self) = [])"
proof -
  obtain a where a:
    "energy_block (filter (\<lambda>e. str_in ''ActiveEnergy'' (en_type e)) (energy_data self)) = Inr a"
    "a = None \<longleftrightarrow> filter (\<lambda>e. str_in ''ActiveEnergy'' (en_type e)) (energy_data self) = []"
    using energy_block_Inr by blast
  obtain b where b:
    "energy_block (filter (\<lambda>e. str_in ''BasalEnergy'' (en_type e)) (energy_data self)) = Inr b"
    "b = None \<longleftrightarrow> filter (\<lambda>e. str_in ''BasalEnergy'' (en_type e)) (energy_data self) = []"
    using energy_block_Inr by blast
  have "analyze_energy self = Inr (Report \<lparr>active_energy = a, basal_energy = b\<rparr>)"
    using assms a(1) b(1) by (simp add: analyze_energy_def Let_def)
  with a(2) b(2) show ?thesis by blast
qed

lemma analyze_energy_Inr: "\<exists>r. analyze_energy self = Inr r"
proof (cases "energy_data self = []")
  case True
  then show ?thesis by (simp add: analyze_energy_def)
next
  case False
  from analyze_energy_Report [OF False] show ?thesis by blast
qed

lemma analyze_workouts_Inr: "\<exists>r. analyze_workouts py self = Inr r"
  by (cases "workouts self = []") (simp_all add: analyze_workouts_def Let_def py_div_def)

lemma gpx_generate_summary_Inr: "\<exists>r. gpx_generate_summary py g = Inr r"
  by (cases "routes g = []") (simp_all add: gpx_generate_summary_def Let_def py_div_def)

text \<open>
  C7, as the code has it. Each reporter, given an empty collection, returns its message:
  it divides by nothing and raises nothing. The energy reporter, given entries of which
  none is of the basal kind, or none of the active kind, returns a result that leaves
  the block of that kind out, with no message; it too divides by nothing and raises
  nothing.
\<close>

theorem reporters_guard_empty_input:
  "(heart_rate_data self = [] \<longrightarrow>
      analyze_heart_rate self = Inr (Message ''No heart rate data found''))
   \<and> (step_data self = [] \<longrightarrow> analyze_steps self = Inr (Message ''No step data found''))
   \<and> (energy_data self = [] \<longrightarrow> analyze_energy self = Inr (Message ''No energy data found''))
   \<and> (workouts self = [] \<longrightarrow> analyze_workouts py self = Inr (Message ''No workouts found''))
   \<and> (routes g = [] \<longrightarrow>
        gpx_generate_summary py g = Inr (Message ''No routes found for the specified period''))
   \<and> (energy_data self \<noteq> []
        \<and> filter (\<lambda>e. str_in ''BasalEnergy'' (en_type e)) (energy_data self) = [] \<longrightarrow>
        (\<exists>a. analyze_energy self = Inr (Report \<lparr>active_energy = a, basal_energy = None\<rparr>)))
   \<and> (energy_data self \<noteq> []
        \<and> filter (\<lambda>e. str_in ''ActiveEnergy'' (en_type e)) (energy_data self) = [] \<longrightarrow>
        (\<exists>b. analyze_energy self = Inr (Report \<lparr>active_energy = None, basal_energy = b\<rparr>)))"
proof -
  have m: "heart_rate_data self = [] \<longrightarrow>
      analyze_heart_rate self = Inr (Message ''No heart rate data found'')"
    "step_data self = [] \<longrightarrow> analyze_steps self = Inr (Message ''No step data found'')"
    "energy_data self = [] \<longrightarrow> analyze_energy self = Inr (Message ''No energy data found'')"
    "workouts self = [] \<longrightarrow> analyze_workouts py self = Inr (Message ''No workouts found'')"
    "routes g = [] \<longrightarrow>
        gpx_generate_summary py g = Inr (Message ''No routes found for the specified period'')"
    by (simp_all add: analyze_heart_rate_def analyze_steps_def analyze_energy_def
        analyze_workouts_def gpx_generate_summary_def)
  have b: "\<exists>a. analyze_energy self = Inr (Report \<lparr>active_energy = a, basal_energy = None\<rparr>)"
    if "energy_data self \<noteq> []"
      and "filter (\<lambda>e. str_in ''BasalEnergy'' (en_type e)) (energy_data self) = []"
    using analyze_energy_Report [OF that(1)] that(2) by auto
  have a: "\<exists>b. analyze_energy self = Inr (Report \<lparr>active_energy = None, basal_energy = b\<rparr>)"
    if "energy_data self \<noteq> []"
      and "filter (\<lambda>e. str_in ''ActiveEnergy'' (en_type e)) (energy_data self) = []"
    using analyze_energy_Report [OF that(1)] that(2) by auto
  show ?thesis using m a b by blast
qed

theorem reporters_guard_empty_input_witness:
  "analyze_heart_rate init_parser = Inr (Message ''No heart rate data found'')
   \<and> analyze_steps init_parser = Inr (Message ''No step data found'')
   \<and> analyze_energy init_parser = Inr (Message ''No energy data found'')
   \<and> analyze_workouts sample_python init_parser = Inr (Message ''No workouts found'')
   \<and> gpx_generate_summary sample_python init_analyzer
       = Inr (Message ''No routes found for the specified period'')
   \<and> analyze_energy (init_parser\<lparr>energy_data :=
        [\<lparr>en_date = ''2025-05-10 10:05:00 +0200'',
          en_type = ''HKQuantityTypeIdentifierBasalEnergyBurned'', en_value = 72\<rparr>]\<rparr>)
       = Inr (Report \<lparr>active_energy = None,
           basal_energy = Some \<lparr>es_total = 72, es_average = 72, es_max = 72\<rparr>\<rparr>)
   \<and> analyze_energy (init_parser\<lparr>energy_data :=
        [\<lparr>en_date = ''2025-05-10 10:05:00 +0200'',
          en_type = ''HKQuantityTypeIdentifierActiveEnergyBurned'', en_value = 72\<rparr>]\<rparr>)
       = Inr (Report \<lparr>active_energy = Some \<lparr>es_total = 72, es_average = 72, es_max = 72\<rparr>,
           basal_energy = None\<rparr>)"
  using reporters_guard_empty_input [of init_parser sample_python init_analyzer]
    reporters_guard_empty_input [of "init_parser\<lparr>energy_data :=
        [\<lparr>en_date = ''2025-05-10 10:05:00 +0200'',
          en_type = ''HKQuantityTypeIdentifierBasalEnergyBurned'', en_value = 72\<rparr>]\<rparr>"
      sample_python init_analyzer]
    reporters_guard_empty_input [of "init_parser\<lparr>energy_data :=
        [\<lparr>en_date = ''2025-05-10 10:05:00 +0200'',
          en_type = ''HKQuantityTypeIdentifierActiveEnergyBurned'', en_value = 72\<rparr>]\<rparr>"
      sample_python init_analyzer]
  by (simp add: init_parser_def init_analyzer_def analyze_energy_def energy_block_def
      py_div_def py_sum_def Let_def)

text \<open>
  C7, as the claim states it, fails: with one active-energy entry and no basal-energy
  entry, the collection that would feed the basal average and maximum is empty, and the
  reporter returns a result without the basal block, not a message.
\<close>

theorem energy_reporter_omits_empty_kind:
  "filter (\<lambda>e. str_in ''BasalEnergy'' (en_type e))
      (energy_data (init_parser\<lparr>energy_data :=
        [\<lparr>en_date = ''2025-05-10 10:05:00 +0200'',
          en_type = ''HKQuantityTypeIdentifierActiveEnergyBurned'', en_value = 30.5\<rparr>]\<rparr>)) = []
   \<and> analyze_energy (init_parser\<lparr>energy_data :=
        [\<lparr>en_date = ''2025-05-10 10:05:00 +0200'',
          en_type = ''HKQuantityTypeIdentifierActiveEnergyBurned'', en_value = 30.5\<rparr>]\<rparr>)
       = Inr (Report \<lparr>active_energy = Some \<lparr>es_total = 30.5, es_average = 30.5, es_max = 30.5\<rparr>,
           basal_energy = None\<rparr>)"
  by (simp add: init_parser_def analyze_energy_def energy_block_def py_div_def py_sum_def Let_def)

section \<open>The cutoff date\<close>

subsection \<open>step_corrector.py\<close>

lemma extract_step_event_before:
  "get elem ''startDate'' = Some s \<Longrightarrow> strptime_z py s = Some a \<Longrightarrow>
   replace_tzinfo_None a < start_date \<Longrightarrow> extract_step_event py acc (ev, elem) = acc"
  by (auto simp: extract_step_event_def split: option.splits)

lemma extract_step_event_cutoff:
  "r \<in> set (extract_step_event py acc ev) \<Longrightarrow>
     r \<in> set acc \<or> start_date \<le> replace_tzinfo_None (s_start r)"
  by (cases ev) (auto simp: extract_step_event_def split: if_splits option.splits)

lemma extract_step_event_mono: "set acc \<subseteq> set (extract_step_event py acc ev)"
  by (cases ev) (auto simp: extract_step_event_def split: if_splits option.splits)

lemma extract_steps_foldl_cutoff:
  "r \<in> set (foldl (extract_step_event py) acc ctx) \<Longrightarrow>
     r \<in> set acc \<or> start_date \<le> replace_tzinfo_None (s_start r)"
proof (induction ctx arbitrary: acc)
  case Nil
  then show ?case by simp
next
  case (Cons ev ctx)
  then have "r \<in> set (extract_step_event py acc ev)
      \<or> start_date \<le> replace_tzinfo_None (s_start r)"
    by simp
  then show ?case using extract_step_event_cutoff by blast
qed

lemma extract_steps_foldl_mono: "set acc \<subseteq> set (foldl (extract_step_event py) acc ctx)"
proof (induction ctx arbitrary: acc)
  case Nil
  then show ?case by simp
next
  case (Cons ev ctx)
  have "set acc \<subseteq> set (extract_step_event py acc ev)" by (rule extract_step_event_mono)
  also have "\<dots> \<subseteq> set (foldl (extract_step_event py) (extract_step_event py acc ev) ctx)"
    by (rule Cons.IH)
  finally show ?case by simp
qed

lemma extract_step_event_adds:
  assumes "el_tag elem = ''Record''"
    and "get elem ''type'' = Some ''HKQuantityTypeIdentifierStepCount''"
    and "get elem ''startDate'' = Some s" "s \<noteq> []"
    and "get elem ''endDate'' = Some e" "e \<noteq> []"
    and "get elem ''value'' = Some v" "v \<noteq> []"
    and "strptime_z py s = Some a" "strptime_z py e = Some b" "int_of_str py v = Some n"
    and "start_date \<le> replace_tzinfo_None a"
  shows "\<lparr>s_start = a, s_end = b, s_value = n,
           s_source = get_default elem ''sourceName'' ''Unknown''\<rparr>
         \<in> set (extract_step_event py acc (End, elem))"
  using assms by (simp add: extract_step_event_def)

lemma extract_steps_foldl_adds:
  assumes "(End, elem) \<in> set ctx"
    and "el_tag elem = ''Record''"
    and "get elem ''type'' = Some ''HKQuantityTypeIdentifierStepCount''"
    and "get elem ''startDate'' = Some s" "s \<noteq> []"
    and "get elem ''endDate'' = Some e" "e \<noteq> []"
    and "get elem ''value'' = Some v" "v \<noteq> []"
    and "strptime_z py s = Some a" "strptime_z py e = Some b" "int_of_str py v = Some n"
    and "start_date \<le> replace_tzinfo_None a"
  shows "\<lparr>s_start = a, s_end = b, s_value = n,
           s_source = get_default elem ''sourceName'' ''Unknown''\<rparr>
         \<in> set (foldl (extract_step_event py) acc ctx)"
  using assms(1)
proof (induction ctx arbitrary: acc)
  case Nil
  then show ?case by simp
next
  case (Cons ev ctx)
  show ?case
  proof (cases "ev = (End, elem)")
    case True
    have "\<lparr>s_start = a, s_end = b, s_value = n,
           s_source = get_default elem ''sourceName'' ''Unknown''\<rparr>
         \<in> set (extract_step_event py acc ev)"
      unfolding True by (rule extract_step_event_adds [OF assms(2-)])
    then show ?thesis using extract_steps_foldl_mono by fastforce
  next
    case False
    with Cons.prems have "(End, elem) \<in> set ctx" by simp
    then show ?thesis using Cons.IH by simp
  qed
qed

subsection \<open>health_analyzer.py\<close>

lemma process_record_before:
  "get elem ''startDate'' = Some s \<Longrightarrow> strptime_ymd py (date_token s) = Some d \<Longrightarrow>
   d < start_date \<Longrightarrow> process_record py self elem = self"
  by (simp add: process_record_def)

lemma init_parser_inv: "spec_cutoff_inv py init_parser"
  by (simp add: spec_cutoff_inv_def init_parser_def)

lemma process_record_inv:
  "spec_cutoff_inv py self \<Longrightarrow> spec_cutoff_inv py (process_record py self elem)"
  by (auto simp: spec_cutoff_inv_def process_record_def Let_def spec_on_or_after_cutoff_def
      split: option.splits if_splits)

lemma process_workout_inv:
  "spec_cutoff_inv py self \<Longrightarrow> spec_cutoff_inv py (process_workout py self elem)"
  by (auto simp: spec_cutoff_inv_def process_workout_def split: option.splits if_splits)

lemma parse_event_inv:
  "spec_cutoff_inv py self \<Longrightarrow> spec_cutoff_inv py (parse_event py self ev)"
  by (cases ev) (simp add: parse_event_def process_record_inv process_workout_inv)

lemma parse_xml_streaming_inv:
  "spec_cutoff_inv py self \<Longrightarrow> spec_cutoff_inv py (parse_xml_streaming py self ctx)"
  unfolding parse_xml_streaming_def
  by (induction ctx arbitrary: self) (simp_all add: parse_event_inv)

lemma process_record_mono:
  "set (step_data self) \<subseteq> set (step_data (process_record py self elem))"
  by (auto simp: process_record_def Let_def split: option.splits if_splits)

lemma process_workout_step_data: "step_data (process_workout py self elem) = step_data self"
  by (auto simp: process_workout_def split: option.splits if_splits)

lemma parse_event_mono: "set (step_data self) \<subseteq> set (step_data (parse_event py self ev))"
  using process_record_mono
  by (cases ev) (simp add: parse_event_def process_workout_step_data)

lemma parse_foldl_mono:
  "set (step_data self) \<subseteq> set (step_data (foldl (parse_event py) self ctx))"
proof (induction ctx arbitrary: self)
  case Nil
  then show ?case by simp
next
  case (Cons ev ctx)
  have "set (step_data self) \<subseteq> set (step_data (parse_event py self ev))"
    by (rule parse_event_mono)
  also have "\<dots> \<subseteq> set (step_data (foldl (parse_event py) (parse_event py self ev) ctx))"
    by (rule Cons.IH)
  finally show ?case by simp
qed

lemma process_record_adds:
  assumes "get elem ''type'' = Some ''HKQuantityTypeIdentifierStepCount''"
    and "get elem ''startDate'' = Some s" "s \<noteq> []"
    and "get elem ''value'' = Some v" "v \<noteq> []"
    and "int_of_str py v = Some n"
    and "spec_on_or_after_cutoff py s"
  shows "\<lparr>st_date = s, st_value = n\<rparr> \<in> set (step_data (process_record py self elem))"
  using assms
  by (auto simp: process_record_def Let_def get_default_def spec_on_or_after_cutoff_def
      split: option.splits)

lemma parse_foldl_adds:
  assumes "(End, elem) \<in> set ctx"
    and "el_tag elem = ''Record''"
    and "get elem ''type'' = Some ''HKQuantityTypeIdentifierStepCount''"
    and "get elem ''startDate'' = Some s" "s \<noteq> []"
    and "get elem ''value'' = Some v" "v \<noteq> []"
    and "int_of_str py v = Some n"
    and "spec_on_or_after_cutoff py s"
  shows "\<lparr>st_date = s, st_value = n\<rparr> \<in> set (step_data (foldl (parse_event py) self ctx))"
  using assms(1)
proof (induction ctx arbitrary: self)
  case Nil
  then show ?case by simp
next
  case (Cons ev ctx)
  show ?case
  proof (cases "ev = (End, elem)")
    case True
    have "\<lparr>st_date = s, st_value = n\<rparr> \<in> set (step_data (parse_event py self ev))"
      unfolding True using process_record_adds [OF assms(3-)] assms(2)
      by (simp add: parse_event_def)
    then show ?thesis using parse_foldl_mono by fastforce
  next
    case False
    with Cons.prems have "(End, elem) \<in> set ctx" by simp
    then show ?thesis using Cons.IH by simp
  qed
qed

text \<open>
  C4. A record whose start date reads as earlier than the cutoff changes nothing: it
  leaves the list of extracted step records as it is, and it leaves the health parser as
  it is. So every extracted step record, every record in the three classified lists and
  every entry of the parser's step, heart-rate and energy collections starts at or after
  the cutoff. A well-formed step record that starts at or after the cutoff is in the
  extracted list and in the parser's step collection.
\<close>

theorem cutoff_excludes_earlier_records:
  "(get elem ''startDate'' = Some s \<and> strptime_z py s = Some a
      \<and> replace_tzinfo_None a < start_date
      \<longrightarrow> extract_step_event py acc (ev, elem) = acc)
   \<and> (get elem ''startDate'' = Some s \<and> strptime_ymd py (date_token s) = Some d
      \<and> d < start_date
      \<longrightarrow> process_record py self elem = self)
   \<and> (\<forall>r \<in> set (extract_steps_with_times py export_xml).
        start_date \<le> replace_tzinfo_None (s_start r))
   \<and> (\<forall>r \<in> set (steps_during_cycling (classify_steps (extract_workout_times py export_xml)
                     (extract_steps_with_times py export_xml)))
              \<union> set (steps_during_skating (classify_steps (extract_workout_times py export_xml)
                     (extract_steps_with_times py export_xml)))
              \<union> set (steps_during_walking (classify_steps (extract_workout_times py export_xml)
                     (extract_steps_with_times py export_xml))).
        start_date \<le> replace_tzinfo_None (s_start r))
   \<and> (\<forall>x \<in> set (step_data (parse_xml_streaming py init_parser export_xml)).
        spec_on_or_after_cutoff py (st_date x))
   \<and> (\<forall>x \<in> set (heart_rate_data (parse_xml_streaming py init_parser export_xml)).
        spec_on_or_after_cutoff py (hr_date x))
   \<and> (\<forall>x \<in> set (energy_data (parse_xml_streaming py init_parser export_xml)).
        spec_on_or_after_cutoff py (en_date x))
   \<and> ((End, elem) \<in> set export_xml \<and> el_tag elem = ''Record''
        \<and> get elem ''type'' = Some ''HKQuantityTypeIdentifierStepCount''
        \<and> get elem ''startDate'' = Some s \<and> s \<noteq> []
        \<and> get elem ''endDate'' = Some e \<and> e \<noteq> []
        \<and> get elem ''value'' = Some v \<and> v \<noteq> []
        \<and> strptime_z py s = Some a \<and> strptime_z py e = Some b \<and> int_of_str py v = Some n
        \<and> start_date \<le> replace_tzinfo_None a
      \<longrightarrow> \<lparr>s_start = a, s_end = b, s_value = n,
            s_source = get_default elem ''sourceName'' ''Unknown''\<rparr>
          \<in> set (extract_steps_with_times py export_xml))
   \<and> ((End, elem) \<in> set export_xml \<and> el_tag elem = ''Record''
        \<and> get elem ''type'' = Some ''HKQuantityTypeIdentifierStepCount''
        \<and> get elem ''startDate'' = Some s \<and> s \<noteq> []
        \<and> get elem ''value'' = Some v \<and> v \<noteq> []
        \<and> int_of_str py v = Some n \<and> spec_on_or_after_cutoff py s
      \<longrightarrow> \<lparr>st_date = s, st_value = n\<rparr>
          \<in> set (step_data (parse_xml_streaming py init_parser export_xml)))"
proof -
  have c1: "\<forall>r \<in> set (extract_steps_with_times py export_xml).
        start_date \<le> replace_tzinfo_None (s_start r)"
    using extract_steps_foldl_cutoff [of _ py "[]" export_xml]
    by (auto simp: extract_steps_with_times_def)
  have c2: "\<forall>r \<in> set (steps_during_cycling (classify_steps (extract_workout_times py export_xml)
                     (extract_steps_with_times py export_xml)))
              \<union> set (steps_during_skating (classify_steps (extract_workout_times py export_xml)
                     (extract_steps_with_times py export_xml)))
              \<union> set (steps_during_walking (classify_steps (extract_workout_times py export_xml)
                     (extract_steps_with_times py export_xml))).
        start_date \<le> replace_tzinfo_None (s_start r)"
    using c1 by (auto simp: classify_steps_filter)
  have inv: "spec_cutoff_inv py (parse_xml_streaming py init_parser export_xml)"
    by (rule parse_xml_streaming_inv [OF init_parser_inv])
  show ?thesis
    using extract_step_event_before [of elem s py a acc ev]
      process_record_before [of elem s py d self] c1 c2 inv
      extract_steps_foldl_adds [of elem export_xml s e v py a b n "[]"]
      parse_foldl_adds [of elem export_xml s v py n init_parser]
    unfolding spec_cutoff_inv_def extract_steps_with_times_def [symmetric]
      parse_xml_streaming_def [symmetric]
    by blast
qed

theorem cutoff_excludes_earlier_records_witness:
  "extract_steps_with_times sample_python sample_export = [sample_step_a]
   \<and> step_data (parse_xml_streaming sample_python init_parser sample_export)
       = [\<lparr>st_date = ''2025-05-10 10:05:00 +0200'', st_value = 500\<rparr>]
   \<and> stats (parse_xml_streaming sample_python init_parser sample_export)
       = [(''HKQuantityTypeIdentifierStepCount'', 1)]
   \<and> strptime_z sample_python ''2025-04-30 23:55:00 +0200''
       = Some \<lparr>wall = start_date - 5 * 60000000, utcoffset = 7200000000\<rparr>
   \<and> extract_step_event sample_python [sample_step_b]
        (End, sample_record ''2025-04-30 23:55:00 +0200'' ''2025-04-30 23:59:00 +0200'' ''200'')
       = [sample_step_b]
   \<and> process_record sample_python init_parser
        (sample_record ''2025-04-30 23:55:00 +0200'' ''2025-04-30 23:59:00 +0200'' ''200'')
       = init_parser"
  using cutoff_excludes_earlier_records
     [of "sample_record ''2025-05-10 10:05:00 +0200'' ''2025-05-10 10:10:00 +0200'' ''500''"
      "''2025-05-10 10:05:00 +0200''" sample_python "sample_time 605" "[]" End
      "start_date + 9 * 86400000000" init_parser sample_export
      "''2025-05-10 10:10:00 +0200''" "''500''" "sample_time 610" 500]
    cutoff_excludes_earlier_records
     [of "sample_record ''2025-04-30 23:55:00 +0200'' ''2025-04-30 23:59:00 +0200'' ''200''"
      "''2025-04-30 23:55:00 +0200''" sample_python
      "\<lparr>wall = start_date - 5 * 60000000, utcoffset = 7200000000\<rparr>" "[sample_step_b]" End
      "start_date - 86400000000" init_parser sample_export
      "''2025-04-30 23:59:00 +0200''" "''200''"
      "\<lparr>wall = start_date - 1 * 60000000, utcoffset = 7200000000\<rparr>" 200]
  by (simp add: extract_steps_with_times_def extract_step_event_def sample_export_def
      sample_record_def sample_python_def get_def get_default_def sample_step_a_def
      parse_xml_streaming_def parse_event_def process_record_def init_parser_def
      date_token_def split_def count_up_def sample_time_def replace_tzinfo_None_def
      start_date_def Let_def)

end
